theory Spec2Isabelle
  imports Main
begin

unbundle bit_operations_syntax

chapter \<open>A model of the Picuki bulk downloader (\<^verbatim>\<open>main.py\<close>)\<close>

text \<open>
  The development embeds the command-line handler \<^verbatim>\<open>main.py\<close>: the download step
  \<^verbatim>\<open>_download_media\<close>, the streaming fetch \<^verbatim>\<open>_download_file_async\<close>, the size
  summary \<^verbatim>\<open>calculate_total_size\<close>, the orchestration \<^verbatim>\<open>_main\<close> and the argument
  gate of the \<^verbatim>\<open>__main__\<close> block.  Python identifiers with a leading underscore lose
  it (\<open>download_media\<close> for \<^verbatim>\<open>_download_media\<close>, \<open>main_async\<close> for \<^verbatim>\<open>_main\<close>).

  Everything outside the file is an explicit parameter or an explicit piece of state:
  the file system is a value of type \<open>filesys\<close>, output and network traffic are events
  appended to a trace, the scraper module \<^verbatim>\<open>lib.Picuki\<close> and the HTTP client are
  functions handed in by the caller, and every Python exception is a value.
\<close>

section \<open>Library functions used by the source\<close>

subsection \<open>\<^verbatim>\<open>hashlib.md5(...).hexdigest()\<close>\<close>

text \<open>
  MD5 after RFC 1321 on byte lists; bytes and 32-bit registers are natural numbers with
  the reduction modulo \<open>2 ^ 32\<close> written out.  A \<open>string\<close> is a list of 8-bit characters,
  so a URL is modelled by its UTF-8 encoding and \<^verbatim>\<open>url.encode()\<close> reads the bytes off.
\<close>

type_synonym md5_state = "nat \<times> nat \<times> nat \<times> nat"

definition md5_s :: "nat list" where
  "md5_s = [7, 12, 17, 22, 7, 12, 17, 22, 7, 12, 17, 22, 7, 12, 17, 22,
            5, 9, 14, 20, 5, 9, 14, 20, 5, 9, 14, 20, 5, 9, 14, 20,
            4, 11, 16, 23, 4, 11, 16, 23, 4, 11, 16, 23, 4, 11, 16, 23,
            6, 10, 15, 21, 6, 10, 15, 21, 6, 10, 15, 21, 6, 10, 15, 21]"

definition md5_K :: "nat list" where
  "md5_K = [0xd76aa478, 0xe8c7b756, 0x242070db, 0xc1bdceee, 0xf57c0faf, 0x4787c62a, 0xa8304613, 0xfd469501,
            0x698098d8, 0x8b44f7af, 0xffff5bb1, 0x895cd7be, 0x6b901122, 0xfd987193, 0xa679438e, 0x49b40821,
            0xf61e2562, 0xc040b340, 0x265e5a51, 0xe9b6c7aa, 0xd62f105d, 0x02441453, 0xd8a1e681, 0xe7d3fbc8,
            0x21e1cde6, 0xc33707d6, 0xf4d50d87, 0x455a14ed, 0xa9e3e905, 0xfcefa3f8, 0x676f02d9, 0x8d2a4c8a,
            0xfffa3942, 0x8771f681, 0x6d9d6122, 0xfde5380c, 0xa4beea44, 0x4bdecfa9, 0xf6bb4b60, 0xbebfbc70,
            0x289b7ec6, 0xeaa127fa, 0xd4ef3085, 0x04881d05, 0xd9d4d039, 0xe6db99e5, 0x1fa27cf8, 0xc4ac5665,
            0xf4292244, 0x432aff97, 0xab9423a7, 0xfc93a039, 0x655b59c3, 0x8f0ccc92, 0xffeff47d, 0x85845dd1,
            0x6fa87e4f, 0xfe2ce6e0, 0xa3014314, 0x4e0811a1, 0xf7537e82, 0xbd3af235, 0x2ad7d2bb, 0xeb86d391]"

definition le_bytes4 :: "nat \<Rightarrow> nat list" where
  "le_bytes4 v = [v mod 256, v div 256 mod 256, v div 65536 mod 256, v div 16777216 mod 256]"

definition md5_pad :: "nat list \<Rightarrow> nat list" where
  "md5_pad msg = msg @ [0x80] @ replicate ((119 - length msg mod 64) mod 64) 0
                 @ le_bytes4 (8 * length msg mod 4294967296)
                 @ le_bytes4 (8 * length msg div 4294967296 mod 4294967296)"

fun words_of :: "nat list \<Rightarrow> nat list" where
  "words_of (b0 # b1 # b2 # b3 # bs) =
     (b0 + 256 * b1 + 65536 * b2 + 16777216 * b3) # words_of bs"
| "words_of _ = []"

definition add32 :: "nat \<Rightarrow> nat \<Rightarrow> nat" where
  "add32 x y = (x + y) mod 4294967296"

definition not32 :: "nat \<Rightarrow> nat" where
  "not32 x = 4294967295 - x"

definition rotl32 :: "nat \<Rightarrow> nat \<Rightarrow> nat" where
  "rotl32 n x = (x * 2 ^ n) mod 4294967296 + x div 2 ^ (32 - n)"

definition md5_F :: "nat \<Rightarrow> nat \<Rightarrow> nat \<Rightarrow> nat \<Rightarrow> nat" where
  "md5_F i B C D =
     (if i < 16 then (B AND C) OR (not32 B AND D)
      else if i < 32 then (D AND B) OR (not32 D AND C)
      else if i < 48 then B XOR C XOR D
      else C XOR (B OR not32 D))"

definition md5_g :: "nat \<Rightarrow> nat" where
  "md5_g i =
     (if i < 16 then i
      else if i < 32 then (5 * i + 1) mod 16
      else if i < 48 then (3 * i + 5) mod 16
      else (7 * i) mod 16)"

fun md5_round :: "nat list \<Rightarrow> md5_state \<Rightarrow> nat \<times> nat \<times> nat \<Rightarrow> md5_state" where
  "md5_round M (A, B, C, D) (i, K_i, s_i) =
     (D, add32 B (rotl32 s_i (add32 (add32 (add32 (md5_F i B C D) A) K_i) (M ! md5_g i))), B, C)"

fun md5_rounds :: "nat list \<Rightarrow> nat \<Rightarrow> md5_state \<Rightarrow> (nat \<times> nat) list \<Rightarrow> md5_state" where
  "md5_rounds M i st [] = st"
| "md5_rounds M i st (ks # rest) = md5_rounds M (i + 1) (md5_round M st (i, fst ks, snd ks)) rest"

definition md5_chunk :: "md5_state \<Rightarrow> nat list \<Rightarrow> md5_state" where
  "md5_chunk st chunk = (case st of (a0, b0, c0, d0) \<Rightarrow>
     case md5_rounds (words_of chunk) 0 st (zip md5_K md5_s) of
       (A, B, C, D) \<Rightarrow> (add32 a0 A, add32 b0 B, add32 c0 C, add32 d0 D))"

fun md5_chunks :: "nat \<Rightarrow> md5_state \<Rightarrow> nat list \<Rightarrow> md5_state" where
  "md5_chunks 0 st bs = st"
| "md5_chunks (Suc k) st bs = md5_chunks k (md5_chunk st (take 64 bs)) (drop 64 bs)"

definition md5_digest :: "nat list \<Rightarrow> nat list" where
  "md5_digest msg = (let p = md5_pad msg in
     case md5_chunks (length p div 64) (0x67452301, 0xefcdab89, 0x98badcfe, 0x10325476) p of
       (a, b, c, d) \<Rightarrow> concat (map le_bytes4 [a, b, c, d]))"

definition hex_digit :: "nat \<Rightarrow> char" where
  "hex_digit n = ''0123456789abcdef'' ! n"

definition hex_byte :: "nat \<Rightarrow> string" where
  "hex_byte b = [hex_digit (b div 16), hex_digit (b mod 16)]"

definition hexdigest :: "nat list \<Rightarrow> string" where
  "hexdigest bs = concat (map hex_byte bs)"

definition encode :: "string \<Rightarrow> nat list" where
  "encode s = map of_char s"

definition md5_hexdigest :: "string \<Rightarrow> string" where
  "md5_hexdigest url = hexdigest (md5_digest (encode url))"

subsection \<open>\<^verbatim>\<open>os.path\<close> on strings\<close>

text \<open>
  \<^verbatim>\<open>posixpath.join\<close> for two components: an absolute second component replaces the
  first, otherwise the two are glued with exactly one separator.
\<close>

definition os_path_join :: "string \<Rightarrow> string \<Rightarrow> string" where
  "os_path_join a b =
     (if b \<noteq> [] \<and> hd b = CHR ''/'' then b
      else if a = [] \<or> last a = CHR ''/'' then a @ b
      else a @ ''/'' @ b)"

text \<open>\<^verbatim>\<open>str.split('/')\<close>: the list of pieces between separators, never empty.\<close>

fun split_slash :: "string \<Rightarrow> string list" where
  "split_slash [] = [[]]"
| "split_slash (c # cs) =
     (if c = CHR ''/'' then [] # split_slash cs
      else (case split_slash cs of [] \<Rightarrow> [[c]] | w # ws \<Rightarrow> (c # w) # ws))"

text \<open>
  A resolved path is the list of its components below the root.  \<open>norm_path\<close> is the
  lexical resolution: empty components and \<^verbatim>\<open>.\<close> are dropped and \<^verbatim>\<open>..\<close> removes the
  component before it.  The file systems considered have no symbolic links, so this is
  what \<^verbatim>\<open>os.path.realpath\<close> computes, whether the path exists or not.
\<close>

type_synonym path = "string list"

fun norm_path :: "path \<Rightarrow> string list \<Rightarrow> path" where
  "norm_path st [] = st"
| "norm_path st (c # cs) =
     (if c = [] \<or> c = ''.'' then norm_path st cs
      else if c = ''..'' then norm_path (butlast st) cs
      else norm_path (st @ [c]) cs)"

definition render :: "path \<Rightarrow> string" where
  "render p = (if p = [] then ''/'' else concat (map (\<lambda>c. ''/'' @ c) p))"

subsection \<open>The file system\<close>

text \<open>
  A file system is a current directory, a table from resolved paths to inodes (a
  directory or a regular file, each with its \<^verbatim>\<open>st_size\<close>), the directories in which
  the process may not create entries, and the \<^verbatim>\<open>st_size\<close> the system gives a fresh
  directory.  The root always exists.  The first entry for a path is the one in force;
  new entries are appended, so the table also fixes the order in which a directory is
  listed.
\<close>

datatype inode = Dir nat | File nat

record filesys =
  cwd :: path
  entries :: "(path \<times> inode) list"
  readonly :: "path list"
  dir_size :: nat

definition inode_at :: "filesys \<Rightarrow> path \<Rightarrow> inode option" where
  "inode_at fs p = (if p = [] then Some (Dir (dir_size fs)) else map_of (entries fs) p)"

definition is_dir_at :: "filesys \<Rightarrow> path \<Rightarrow> bool" where
  "is_dir_at fs p = (case inode_at fs p of Some (Dir _) \<Rightarrow> True | _ \<Rightarrow> False)"

fun st_size :: "inode \<Rightarrow> nat" where
  "st_size (Dir n) = n"
| "st_size (File n) = n"

fun is_file :: "inode \<Rightarrow> bool" where
  "is_file (File _) = True"
| "is_file (Dir _) = False"

definition regular_files :: "filesys \<Rightarrow> (path \<times> inode) list" where
  "regular_files fs = filter (\<lambda>e. is_file (snd e)) (entries fs)"

definition resolve :: "filesys \<Rightarrow> string \<Rightarrow> path" where
  "resolve fs s = norm_path (if s \<noteq> [] \<and> hd s = CHR ''/'' then [] else cwd fs) (split_slash s)"

definition os_path_realpath :: "filesys \<Rightarrow> string \<Rightarrow> string" where
  "os_path_realpath fs s = render (resolve fs s)"

text \<open>
  The kernel does not resolve lexically: it walks the path component by component from
  the root or the current directory, and each step, also \<^verbatim>\<open>.\<close> and \<^verbatim>\<open>..\<close>, needs a
  directory to start from.  An empty component (a doubled or final separator) is
  treated like \<^verbatim>\<open>.\<close>.  \<^verbatim>\<open>os.path.exists\<close> is true when the walk arrives at an inode.
\<close>

definition start_of :: "filesys \<Rightarrow> string \<Rightarrow> path" where
  "start_of fs s = (if s \<noteq> [] \<and> hd s = CHR ''/'' then [] else cwd fs)"

fun walk :: "filesys \<Rightarrow> path \<Rightarrow> string list \<Rightarrow> path option" where
  "walk fs st [] = (if inode_at fs st \<noteq> None then Some st else None)"
| "walk fs st (c # cs) =
     (if \<not> is_dir_at fs st then None
      else if c = [] \<or> c = ''.'' then walk fs st cs
      else if c = ''..'' then walk fs (butlast st) cs
      else walk fs (st @ [c]) cs)"

definition os_path_exists :: "filesys \<Rightarrow> string \<Rightarrow> bool" where
  "os_path_exists fs s = (s \<noteq> [] \<and> walk fs (start_of fs s) (split_slash s) \<noteq> None)"

text \<open>The entries of a directory, in table order: \<^verbatim>\<open>Path.glob("*")\<close> and \<^verbatim>\<open>Path.iterdir()\<close>.\<close>

definition children :: "filesys \<Rightarrow> path \<Rightarrow> (string \<times> inode) list" where
  "children fs d =
     map (\<lambda>e. (last (fst e), snd e)) (filter (\<lambda>e. fst e \<noteq> [] \<and> butlast (fst e) = d) (entries fs))"

subsection \<open>Exceptions\<close>

text \<open>
  An exception is its class and its message; for an error of the operating system the
  message is the resolved path of the entry at which the call failed.  The classes are those the source raises or
  names in an \<^verbatim>\<open>except\<close> clause, those the operating system raises on the calls it
  makes, and network errors the scraper module and the HTTP client can raise
  (\<^verbatim>\<open>httpx.ReadError\<close> and \<^verbatim>\<open>ConnectionResetError\<close> for a reset connection,
  \<^verbatim>\<open>httpx.ConnectTimeout\<close>).  None of the classes named in an \<^verbatim>\<open>except\<close> clause of
  the source is a base class of another class listed here, so an \<^verbatim>\<open>except\<close> clause
  matches an exception exactly if it names its class.
\<close>

datatype exn_class =
    AssertionError | ValueError | KeyError | AttributeError
  | PermissionError | FileExistsError | FileNotFoundError | NotADirectoryError | IsADirectoryError
  | TimeoutError | ReadTimeout | CancelledError | SSLWantReadError
  | ReadError | ConnectTimeout | ConnectionResetError

datatype exn = Exn exn_class string

fun class_of :: "exn \<Rightarrow> exn_class" where
  "class_of (Exn c m) = c"

fun str_of :: "exn \<Rightarrow> string" where
  "str_of (Exn c m) = m"

definition except_matches :: "exn_class list \<Rightarrow> exn \<Rightarrow> bool" where
  "except_matches classes e = (class_of e \<in> set classes)"

subsection \<open>\<^verbatim>\<open>os.mkdir\<close> and \<^verbatim>\<open>os.makedirs(..., exist_ok=True)\<close>\<close>

definition mkdir :: "filesys \<Rightarrow> path \<Rightarrow> exn + filesys" where
  "mkdir fs p =
     (if inode_at fs p \<noteq> None then Inl (Exn FileExistsError (render p))
      else case inode_at fs (butlast p) of
        None \<Rightarrow> Inl (Exn FileNotFoundError (render p))
      | Some (File _) \<Rightarrow> Inl (Exn NotADirectoryError (render p))
      | Some (Dir _) \<Rightarrow>
          if butlast p \<in> set (readonly fs) then Inl (Exn PermissionError (render p))
          else Inr (fs\<lparr>entries := entries fs @ [(p, Dir (dir_size fs))]\<rparr>))"

text \<open>
  \<^verbatim>\<open>os.makedirs(name, exist_ok=True)\<close> makes sure that every prefix of the path is a
  directory, the shortest first: the recursion of the library descends to the longest
  prefix that exists and calls \<^verbatim>\<open>mkdir\<close> on each longer one on its way back.  The model
  walks the components from the left as the kernel does and calls \<^verbatim>\<open>mkdir\<close> wherever
  the next name is missing; so a directory that the path enters and leaves again through
  \<^verbatim>\<open>..\<close> is created as well.  A step from something that is not a directory fails, and
  so does the final \<^verbatim>\<open>mkdir\<close> when the path names a file.  A failure leaves behind the
  directories created before it, so the result carries the file system in both cases.
\<close>

fun makedirs_walk :: "filesys \<Rightarrow> path \<Rightarrow> string list \<Rightarrow> exn option \<times> filesys" where
  "makedirs_walk fs st [] =
     (case inode_at fs st of
        Some (Dir _) \<Rightarrow> (None, fs)
      | Some (File _) \<Rightarrow> (Some (Exn FileExistsError (render st)), fs)
      | None \<Rightarrow> (Some (Exn FileNotFoundError (render st)), fs))"
| "makedirs_walk fs st (c # cs) =
     (case inode_at fs st of
        None \<Rightarrow> (Some (Exn FileNotFoundError (render (st @ [c]))), fs)
      | Some (File _) \<Rightarrow> (Some (Exn NotADirectoryError (render (st @ [c]))), fs)
      | Some (Dir _) \<Rightarrow>
          if c = [] \<or> c = ''.'' then makedirs_walk fs st cs
          else if c = ''..'' then makedirs_walk fs (butlast st) cs
          else if inode_at fs (st @ [c]) \<noteq> None then makedirs_walk fs (st @ [c]) cs
          else (case mkdir fs (st @ [c]) of
                  Inl e \<Rightarrow> (Some e, fs)
                | Inr fs' \<Rightarrow> makedirs_walk fs' (st @ [c]) cs))"

definition os_makedirs :: "filesys \<Rightarrow> string \<Rightarrow> exn option \<times> filesys" where
  "os_makedirs fs s =
     (if s = [] then (Some (Exn FileNotFoundError []), fs)
      else makedirs_walk fs (start_of fs s) (split_slash s))"

subsection \<open>Opening and writing a file\<close>

fun set_inode :: "path \<Rightarrow> inode \<Rightarrow> (path \<times> inode) list \<Rightarrow> (path \<times> inode) list" where
  "set_inode p n [] = [(p, n)]"
| "set_inode p n (e # es) = (if fst e = p then (p, n) # es else e # set_inode p n es)"

text \<open>\<^verbatim>\<open>open(name, "wb")\<close>: creates the file, or truncates the one that is there.\<close>

definition open_wb :: "filesys \<Rightarrow> path \<Rightarrow> exn + filesys" where
  "open_wb fs p =
     (case inode_at fs p of
        Some (Dir _) \<Rightarrow> Inl (Exn IsADirectoryError (render p))
      | Some (File _) \<Rightarrow> Inr (fs\<lparr>entries := set_inode p (File 0) (entries fs)\<rparr>)
      | None \<Rightarrow>
          (case inode_at fs (butlast p) of
             None \<Rightarrow> Inl (Exn FileNotFoundError (render p))
           | Some (File _) \<Rightarrow> Inl (Exn NotADirectoryError (render p))
           | Some (Dir _) \<Rightarrow>
               if butlast p \<in> set (readonly fs) then Inl (Exn PermissionError (render p))
               else Inr (fs\<lparr>entries := set_inode p (File 0) (entries fs)\<rparr>)))"

text \<open>Appending \<open>n\<close> bytes to the open file at \<open>p\<close>.\<close>

definition write_bytes :: "filesys \<Rightarrow> path \<Rightarrow> nat \<Rightarrow> filesys" where
  "write_bytes fs p n =
     (case inode_at fs p of
        Some (File k) \<Rightarrow> fs\<lparr>entries := set_inode p (File (k + n)) (entries fs)\<rparr>
      | _ \<Rightarrow> fs)"

section \<open>The world the program runs in\<close>

text \<open>
  Console output, log records, tables, pauses and HTTP requests of the downloader are
  events; a run appends its events to the trace in the order in which they happen.
\<close>

datatype pyvalue = IntV nat | StrV string

datatype event =
    LogInfo string
  | LogWarning string
  | ConsolePrint string
  | ShowTable string "(string \<times> pyvalue) list"
  | Sleep nat
  | HttpGet string
  | SetLevelDebug
  | PrintHelp

record world =
  disk :: filesys
  trace :: "event list"

definition emit :: "event \<Rightarrow> world \<Rightarrow> world" where
  "emit e w = w\<lparr>trace := trace w @ [e]\<rparr>"

fun is_http_get :: "event \<Rightarrow> bool" where
  "is_http_get (HttpGet _) = True"
| "is_http_get _ = False"

definition http_requests :: "world \<Rightarrow> event list" where
  "http_requests w = filter is_http_get (trace w)"

text \<open>
  A statement either returns (\<open>None\<close>) or raises (\<open>Some e\<close>); either way it leaves a
  world behind.  \<open>and_then\<close> is sequencing: what follows a raise is skipped.
\<close>

type_synonym outcome = "exn option \<times> world"

definition and_then :: "outcome \<Rightarrow> (world \<Rightarrow> outcome) \<Rightarrow> outcome" where
  "and_then r f = (case r of (Some e, w) \<Rightarrow> (Some e, w) | (None, w) \<Rightarrow> f w)"

text \<open>Decimal rendering of a number inside an f-string.\<close>

fun show_nat :: "nat \<Rightarrow> string" where
  "show_nat n =
     (if n < 10 then [''0123456789'' ! n]
      else show_nat (n div 10) @ [''0123456789'' ! (n mod 10)])"

declare show_nat.simps [simp del]

text \<open>\<^verbatim>\<open>repr\<close> of a string without quotes or escapes in it: the string in single quotes.\<close>

definition repr_str :: "string \<Rightarrow> string" where
  "repr_str s = CHR 0x27 # s @ [CHR 0x27]"

section \<open>\<^verbatim>\<open>_download_media\<close>\<close>

text \<open>
  The argument \<open>url\<close> is \<open>None\<close> for Python's \<^verbatim>\<open>None\<close>.  The directory is created
  only when it does not exist; a \<^verbatim>\<open>PermissionError\<close> of \<^verbatim>\<open>os.makedirs\<close> is logged and
  ends the call, any other error of it propagates.  Both branches of the final test
  print one line; the call of \<^verbatim>\<open>_download_file_async\<close> in the first branch is commented
  out in the source and therefore is not part of the function.
\<close>

definition output_folder_of :: "filesys \<Rightarrow> string \<Rightarrow> string \<Rightarrow> string \<Rightarrow> string" where
  "output_folder_of fs username media_type output =
     os_path_join (os_path_join (os_path_realpath fs output) username) media_type"

definition filename_of :: "filesys \<Rightarrow> string \<Rightarrow> string \<Rightarrow> string \<Rightarrow> string \<Rightarrow> string" where
  "filename_of fs url username media_type output =
     os_path_join (output_folder_of fs username media_type output) (md5_hexdigest url)"

text \<open>The test for the directory and its creation (the first \<^verbatim>\<open>if\<close> of the function).\<close>

definition ensure_folder :: "filesys \<Rightarrow> string \<Rightarrow> exn option \<times> filesys" where
  "ensure_folder fs output_folder =
     (if \<not> os_path_exists fs output_folder then os_makedirs fs output_folder else (None, fs))"

definition download_media :: "string option \<Rightarrow> string \<Rightarrow> string \<Rightarrow> string \<Rightarrow> world \<Rightarrow> outcome" where
  "download_media url_opt username media_type output w =
     (case url_opt of
        None \<Rightarrow> (Some (Exn AssertionError ''Stopped, no URL to download.''), w)
      | Some url \<Rightarrow>
          let output_folder = output_folder_of (disk w) username media_type output;
              filename = filename_of (disk w) url username media_type output
          in (case ensure_folder (disk w) output_folder of
               (Some e, fs') \<Rightarrow>
                 if except_matches [PermissionError] e
                 then (None, emit (LogWarning (''Directory output: '' @ output_folder @ '' is not writeable!''))
                               (w\<lparr>disk := fs'\<rparr>))
                 else (Some e, w\<lparr>disk := fs'\<rparr>)
             | (None, fs') \<Rightarrow>
                 if \<not> os_path_exists fs' filename
                 then (None, emit (ConsolePrint (''[green] '' @ filename @ '' [green] file exists!''))
                               (w\<lparr>disk := fs'\<rparr>))
                 else (None, emit (ConsolePrint (''[green] Skipping.. [blue]'' @ filename @ '' [green] file exists!''))
                               (w\<lparr>disk := fs'\<rparr>))))"

text \<open>
  The existence check as the specification words it, for comparison with the test
  \<^verbatim>\<open>os.path.exists(filename)\<close> of the source: some entry of the destination directory
  has a name that begins with the hash.
\<close>

definition hash_prefix_exists :: "filesys \<Rightarrow> string \<Rightarrow> string \<Rightarrow> bool" where
  "hash_prefix_exists fs folder h =
     list_ex (\<lambda>c. take (length h) (fst c) = h) (children fs (resolve fs folder))"

text \<open>
  Two worlds differ by neither a regular file nor an HTTP request: what a step that
  fetches nothing and writes nothing does.
\<close>

definition no_file_no_fetch :: "world \<Rightarrow> world \<Rightarrow> bool" where
  "no_file_no_fetch w w' =
     (regular_files (disk w') = regular_files (disk w) \<and> http_requests w' = http_requests w)"


definition plain_name :: "string \<Rightarrow> bool" where
  "plain_name c = (c \<noteq> [] \<and> c \<noteq> ''.'' \<and> c \<noteq> ''..'' \<and> CHR ''/'' \<notin> set c)"

definition tidy :: "filesys \<Rightarrow> bool" where
  "tidy fs = (list_all plain_name (cwd fs)
              \<and> list_all (\<lambda>e. is_dir_at fs (butlast (fst e))) (entries fs))"


section \<open>\<^verbatim>\<open>_download_file_async\<close>\<close>

text \<open>
  The HTTP client is a function from the URL to what \<^verbatim>\<open>session.get\<close> does: it raises,
  or it yields a response with its \<^verbatim>\<open>Content-Type\<close> header (if any), the outcome of
  reading \<^verbatim>\<open>content-length\<close> as an integer, the chunks of the body and the exception
  that ends the body early (if any).  The progress bar is transient console output and
  is left out.
\<close>

datatype header_int = Absent | IntValue nat | Malformed

record response =
  content_type :: "string option"
  content_length :: header_int
  chunks :: "string list"
  stream_error :: "exn option"

datatype http_result = HttpRaise exn | HttpResponse response

definition fetch_body :: "(string \<Rightarrow> http_result) \<Rightarrow> string \<Rightarrow> string \<Rightarrow> world \<Rightarrow> outcome" where
  "fetch_body http url filename w =
     (case http url of
        HttpRaise e \<Rightarrow> (Some e, w)
      | HttpResponse resp \<Rightarrow>
          (case content_type resp of
             None \<Rightarrow> (Some (Exn ValueError (''Cannot get mimetype of content: '' @ url)), w)
           | Some extension \<Rightarrow>
               if extension = [] then (Some (Exn ValueError (''Cannot get mimetype of content: '' @ url)), w)
               else
                 let filename' = filename @ ''.'' @ last (split_slash extension);
                     p = resolve (disk w) filename'
                 in (case open_wb (disk w) p of
                      Inl e \<Rightarrow> (Some e, w)
                    | Inr fs1 \<Rightarrow>
                        if content_length resp = Malformed
                        then (Some (Exn ValueError ''invalid literal for int()''), w\<lparr>disk := fs1\<rparr>)
                        else
                          let fs2 = foldl (\<lambda>fs c. write_bytes fs p (length c)) fs1 (chunks resp)
                          in (case stream_error resp of
                               Some e \<Rightarrow> (Some e, w\<lparr>disk := fs2\<rparr>)
                             | None \<Rightarrow>
                                 (None, emit (ConsolePrint (''[green] Completed.. saved as: [blue]'' @ filename'))
                                          (w\<lparr>disk := fs2\<rparr>))))))"

definition download_file_async :: "(string \<Rightarrow> http_result) \<Rightarrow> string \<Rightarrow> string \<Rightarrow> world \<Rightarrow> outcome" where
  "download_file_async http url filename w =
     (case fetch_body http url filename (emit (HttpGet url) w) of
        (Some e, w') \<Rightarrow>
          if except_matches [TimeoutError] e
          then (None, emit (ConsolePrint ''[red]Download timed out.'') w')
          else (Some e, w')
      | (None, w') \<Rightarrow> (None, w'))"

section \<open>\<^verbatim>\<open>calculate_total_size\<close> and the tables\<close>

text \<open>
  The dictionary \<^verbatim>\<open>total_size\<close> is a finite map from keys to numbers; reading a key
  that is not there raises \<^verbatim>\<open>KeyError\<close>.  The outer loop runs over the entries of the
  user's directory (none when it is not a directory), the inner loop over the entries of
  each of them; \<^verbatim>\<open>iterdir\<close> raises on an entry that is not a directory.
\<close>

type_synonym sizes = "string \<rightharpoonup> nat"

definition initial_sizes :: sizes where
  "initial_sizes = [''total'' \<mapsto> 0, ''images'' \<mapsto> 0, ''videos'' \<mapsto> 0, ''thumbnails'' \<mapsto> 0]"

definition add_to_key :: "sizes \<Rightarrow> string \<Rightarrow> nat \<Rightarrow> exn + sizes" where
  "add_to_key m k n =
     (case m k of
        None \<Rightarrow> Inl (Exn KeyError (repr_str k))
      | Some v \<Rightarrow> Inr (m(k \<mapsto> v + n)))"

fun size_files :: "string \<Rightarrow> (string \<times> inode) list \<Rightarrow> sizes \<Rightarrow> exn + sizes" where
  "size_files media_type [] m = Inr m"
| "size_files media_type (f # fs) m =
     (case add_to_key m media_type (st_size (snd f)) of
        Inl e \<Rightarrow> Inl e
      | Inr m1 \<Rightarrow>
          (case add_to_key m1 ''total'' (st_size (snd f)) of
             Inl e \<Rightarrow> Inl e
           | Inr m2 \<Rightarrow> size_files media_type fs m2))"

fun size_globs :: "filesys \<Rightarrow> path \<Rightarrow> (string \<times> inode) list \<Rightarrow> sizes \<Rightarrow> exn + sizes" where
  "size_globs fs base [] m = Inr m"
| "size_globs fs base (g # gs) m =
     (case snd g of
        File _ \<Rightarrow> Inl (Exn NotADirectoryError (render (base @ [fst g])))
      | Dir _ \<Rightarrow>
          (case size_files (fst g) (children fs (base @ [fst g])) m of
             Inl e \<Rightarrow> Inl e
           | Inr m' \<Rightarrow> size_globs fs base gs m'))"

definition top_level :: "filesys \<Rightarrow> string \<Rightarrow> (string \<times> inode) list" where
  "top_level fs username =
     (let fullpath = resolve fs (os_path_realpath fs username)
      in if is_dir_at fs fullpath then children fs fullpath else [])"

definition calculate_total_size :: "filesys \<Rightarrow> string \<Rightarrow> exn + sizes" where
  "calculate_total_size fs username =
     size_globs fs (resolve fs (os_path_realpath fs username)) (top_level fs username) initial_sizes"





definition user_dir :: "filesys \<Rightarrow> string \<Rightarrow> path" where
  "user_dir fs username = resolve fs (os_path_realpath fs username)"

definition show_table :: "(string \<times> pyvalue) list \<Rightarrow> string \<Rightarrow> world \<Rightarrow> world" where
  "show_table data title w = emit (ShowTable title data) w"

definition size_rows :: "sizes \<Rightarrow> (string \<times> pyvalue) list" where
  "size_rows m =
     concat (map (\<lambda>k. case m k of None \<Rightarrow> [] | Some v \<Rightarrow> [(k, IntV v)])
                 [''total'', ''images'', ''videos'', ''thumbnails''])"

definition calculate_result_and_show_table :: "string \<Rightarrow> world \<Rightarrow> outcome" where
  "calculate_result_and_show_table username w =
     (case calculate_total_size (disk w) username of
        Inl e \<Rightarrow> (Some e, w)
      | Inr total_size \<Rightarrow> (None, show_table (size_rows total_size) (''Total Size for '' @ username) w))"

section \<open>\<^verbatim>\<open>_main\<close>\<close>

text \<open>
  The module \<^verbatim>\<open>lib.Picuki\<close> is not part of \<^verbatim>\<open>main.py\<close>.  Its four methods that
  \<^verbatim>\<open>_main\<close> calls are parameters: each returns a value or raises.  A profile is the
  pair \<^verbatim>\<open>(page, result)\<close> the source unpacks, together with what evaluating
  \<^verbatim>\<open>profile.get('username')\<close> on it does.  A content record is the dictionary without
  its key \<^verbatim>\<open>media\<close> and the value under that key, if the key is there; \<open>None\<close> stands
  for any false value of \<^verbatim>\<open>content\<close>, of \<^verbatim>\<open>images\<close> and of \<^verbatim>\<open>videos\<close> where the source
  only tests truth, with the empty list as the other false value of the two lists.
\<close>

record video =
  video_thumbnail :: "string option"
  video_url :: "string option"

record media_payload =
  media_images :: "string option list option"
  media_videos :: "video list option"

record content =
  content_fields :: "(string \<times> pyvalue) list"
  content_media :: "media_payload option"

record profile =
  profile_page :: string
  profile_result :: "(string \<times> pyvalue) list"
  profile_get_username :: "exn + string"

record picuki =
  clear_username :: "string option \<Rightarrow> exn + string"
  get_profile :: "string \<Rightarrow> exn + profile option"
  get_media_id :: "string \<Rightarrow> exn + string list"
  get_media_content :: "string \<Rightarrow> exn + content option"

record args =
  arg_username :: "string option"
  arg_images :: bool
  arg_videos :: bool
  arg_thumbnails :: bool
  arg_all :: bool
  arg_verbose :: bool

definition selected_of :: "args \<Rightarrow> string list" where
  "selected_of a =
     (if \<not> arg_all a
      then map fst (filter snd [(''images'', arg_images a), (''videos'', arg_videos a),
                                 (''thumbnails'', arg_thumbnails a)])
      else [''images'', ''videos'', ''thumbnails''])"

text \<open>\<^verbatim>\<open>repr\<close> of a list of strings, as an f-string prints \<^verbatim>\<open>selected\<close>.\<close>

fun repr_items :: "string list \<Rightarrow> string" where
  "repr_items [] = []"
| "repr_items [x] = repr_str x"
| "repr_items (x # y # ys) = repr_str x @ '', '' @ repr_items (y # ys)"

definition repr_list :: "string list \<Rightarrow> string" where
  "repr_list xs = ''['' @ repr_items xs @ '']''"

fun download_images :: "string \<Rightarrow> nat \<Rightarrow> nat \<Rightarrow> string option list \<Rightarrow> world \<Rightarrow> outcome" where
  "download_images username n img_index [] w = (None, w)"
| "download_images username n img_index (img # rest) w =
     and_then
       (download_media img username ''images'' ''images''
          (emit (LogInfo (''Downloading images ('' @ show_nat img_index @ '' of '' @ show_nat n @ '')'')) w))
       (download_images username n (Suc img_index) rest)"

definition download_thumbnail :: "string list \<Rightarrow> string \<Rightarrow> nat \<Rightarrow> nat \<Rightarrow> video \<Rightarrow> world \<Rightarrow> outcome" where
  "download_thumbnail selected username n vid_index vids w =
     (if ''thumbnails'' \<in> set selected
      then download_media (video_thumbnail vids) username ''thumbnails'' ''thumbnails''
             (emit (LogInfo (''Downloading thumbnails ('' @ show_nat vid_index @ '' of '' @ show_nat n @ '')'')) w)
      else (None, w))"

definition download_video :: "string list \<Rightarrow> string \<Rightarrow> nat \<Rightarrow> nat \<Rightarrow> video \<Rightarrow> world \<Rightarrow> outcome" where
  "download_video selected username n vid_index vids w =
     (if ''videos'' \<in> set selected
      then download_media (video_url vids) username ''videos'' ''videos''
             (emit (LogInfo (''Downloading videos ('' @ show_nat vid_index @ '' of '' @ show_nat n @ '')'')) w)
      else (None, w))"

fun download_videos :: "string list \<Rightarrow> string \<Rightarrow> nat \<Rightarrow> nat \<Rightarrow> video list \<Rightarrow> world \<Rightarrow> outcome" where
  "download_videos selected username n vid_index [] w = (None, w)"
| "download_videos selected username n vid_index (vids # rest) w =
     and_then
       (and_then (download_thumbnail selected username n vid_index vids w)
                 (download_video selected username n vid_index vids))
       (download_videos selected username n (Suc vid_index) rest)"

definition images_stage :: "string list \<Rightarrow> string \<Rightarrow> media_payload \<Rightarrow> world \<Rightarrow> outcome" where
  "images_stage selected username m w =
     (if ''images'' \<in> set selected
      then (case media_images m of
              None \<Rightarrow> (None, emit (LogWarning ''There are no images to download!'') w)
            | Some images \<Rightarrow>
                if images = [] then (None, emit (LogWarning ''There are no images to download!'') w)
                else download_images username (length images) 1 images
                       (emit (LogInfo (''Total images collected: '' @ show_nat (length images))) w))
      else (None, w))"

definition videos_stage :: "string list \<Rightarrow> string \<Rightarrow> media_payload \<Rightarrow> world \<Rightarrow> outcome" where
  "videos_stage selected username m w =
     (if ''videos'' \<in> set selected \<or> ''thumbnails'' \<in> set selected
      then (case media_videos m of
              None \<Rightarrow> (None, emit (LogWarning ''There are no videos or thumbnails to download..'') w)
            | Some videos \<Rightarrow>
                if videos = [] then (None, emit (LogWarning ''There are no videos or thumbnails to download..'') w)
                else download_videos selected username (length videos) 1 videos
                       (emit (LogInfo (''Total videos/thumbnails Collected: '' @ show_nat (length videos))) w))
      else (None, w))"

text \<open>The body of the \<^verbatim>\<open>try\<close> statement for one media identifier.\<close>

definition try_body :: "picuki \<Rightarrow> string list \<Rightarrow> string \<Rightarrow> string \<Rightarrow> world \<Rightarrow> outcome" where
  "try_body module selected username media w =
     (case get_media_content module media of
        Inl e \<Rightarrow> (Some e, w)
      | Inr None \<Rightarrow> (None, emit (LogWarning (''Cannot get content from media ID: '' @ media)) w)
      | Inr (Some c) \<Rightarrow>
          (case content_media c of
             None \<Rightarrow> (Some (Exn KeyError (repr_str ''media'')), w)
           | Some m \<Rightarrow>
               and_then
                 (and_then (images_stage selected username m (show_table (content_fields c) ''information'' w))
                           (videos_stage selected username m))
                 (\<lambda>w'. (None, emit (Sleep 1) w'))))"

text \<open>
  The two \<^verbatim>\<open>except\<close> clauses of the loop, in source order; Python runs the first clause
  that matches.
\<close>

datatype handler = FirstExcept | SecondExcept

definition handler_for :: "exn \<Rightarrow> handler option" where
  "handler_for e =
     (if except_matches [ReadTimeout, CancelledError, SSLWantReadError] e then Some FirstExcept
      else if except_matches [CancelledError, SSLWantReadError] e then Some SecondExcept
      else None)"

definition handle_exception :: "string \<Rightarrow> exn \<Rightarrow> world \<Rightarrow> world" where
  "handle_exception media e w =
     emit (Sleep 1) (emit (LogWarning (''Exception: '' @ str_of e @ '', in media ID: '' @ media)) w)"

fun media_loop :: "picuki \<Rightarrow> string list \<Rightarrow> string \<Rightarrow> nat \<Rightarrow> nat \<Rightarrow> string list \<Rightarrow> world \<Rightarrow> outcome" where
  "media_loop module selected username n index [] w = (None, w)"
| "media_loop module selected username n index (media # rest) w =
     (case try_body module selected username media
             (emit (LogInfo (''Getting content from: '' @ media @ '' ['' @ show_nat index @ '' of ''
                             @ show_nat n @ '']'')) w) of
        (None, w') \<Rightarrow> media_loop module selected username n (Suc index) rest w'
      | (Some e, w') \<Rightarrow>
          (case handler_for e of
             Some FirstExcept \<Rightarrow>
               media_loop module selected username n (Suc index) rest (handle_exception media e w')
           | Some SecondExcept \<Rightarrow>
               media_loop module selected username n (Suc index) rest (handle_exception media e w')
           | None \<Rightarrow> (Some e, w')))"

definition main_async :: "picuki \<Rightarrow> args \<Rightarrow> world \<Rightarrow> outcome" where
  "main_async module kwargs w =
     (let w0 = (if arg_verbose kwargs then emit SetLevelDebug w else w)
      in case clear_username module (arg_username kwargs) of
           Inl e \<Rightarrow> (Some e, w0)
         | Inr username \<Rightarrow>
             (case get_profile module username of
                Inl e \<Rightarrow> (Some e, w0)
              | Inr None \<Rightarrow>
                  (None, emit (LogWarning (''Cannot find user: @'' @ username @ '', check the username'')) w0)
              | Inr (Some prof) \<Rightarrow>
                  (let w1 = show_table (profile_result prof) ''information'' w0
                   in case get_media_id module (profile_page prof) of
                        Inl e \<Rightarrow> (Some e, w1)
                      | Inr media_id \<Rightarrow>
                          if media_id = []
                          then (case profile_get_username prof of
                                  Inl e \<Rightarrow> (Some e, w1)
                                | Inr u \<Rightarrow>
                                    (None, emit (LogWarning (''The user: '' @ u @ '' doesn'' @ [CHR 0x27] @ ''t have any posts.'')) w1))
                          else
                            and_then
                              (media_loop module (selected_of kwargs) username (length media_id) 1 media_id
                                 (emit (LogInfo (''Selected media: '' @ repr_list (selected_of kwargs)
                                                 @ '', starting download..''))
                                    (emit (LogInfo (''Total Media Collected: '' @ show_nat (length media_id))) w1)))
                              (calculate_result_and_show_table username))))"

section \<open>The \<^verbatim>\<open>__main__\<close> block\<close>

text \<open>
  \<^verbatim>\<open>args.username\<close> is \<open>None\<close> when the option is absent; the empty string is false as
  well.  \<^verbatim>\<open>asyncio.run\<close> passes on what \<^verbatim>\<open>_main\<close> returns or raises.
\<close>

definition truthy :: "string option \<Rightarrow> bool" where
  "truthy s = (case s of None \<Rightarrow> False | Some x \<Rightarrow> x \<noteq> [])"

definition gate :: "args \<Rightarrow> bool" where
  "gate a = (truthy (arg_username a) \<and>
             list_ex (\<lambda>b. b) [arg_images a, arg_videos a, arg_thumbnails a, arg_all a, arg_verbose a])"

definition main_block :: "picuki \<Rightarrow> args \<Rightarrow> world \<Rightarrow> outcome" where
  "main_block module a w =
     (if gate a
      then (case main_async module a w of
              (Some e, w') \<Rightarrow>
                if except_matches [CancelledError, SSLWantReadError] e
                then (None, emit (LogWarning (''Exception: '' @ str_of e)) w')
                else (Some e, w')
            | (None, w') \<Rightarrow> (None, w'))
      else (None, emit PrintHelp w))"

section \<open>Concrete worlds and inputs\<close>

text \<open>
  A working directory \<^verbatim>\<open>/w\<close> on an otherwise empty disk, and a scraper module that
  knows the user \<^verbatim>\<open>al\<close> with one post \<^verbatim>\<open>p1\<close> holding one image.
\<close>

definition home_fs :: filesys where
  "home_fs = \<lparr>cwd = [''w''], entries = [([''w''], Dir 4096)], readonly = [], dir_size = 4096\<rparr>"

definition home_world :: world where
  "home_world = \<lparr>disk = home_fs, trace = []\<rparr>"

definition image_url :: string where
  "image_url = ''http://x/a.jpg''"

definition one_image :: content where
  "one_image = \<lparr>content_fields = [(''likes'', IntV 3)],
                 content_media = Some \<lparr>media_images = Some [Some image_url], media_videos = None\<rparr>\<rparr>"

definition al_profile :: profile where
  "al_profile = \<lparr>profile_page = ''page'', profile_result = [(''username'', StrV ''al'')],
                  profile_get_username = Inl (Exn AttributeError ''get'')\<rparr>"

definition al_module :: picuki where
  "al_module = \<lparr>clear_username = (\<lambda>u. case u of None \<Rightarrow> Inl (Exn AttributeError ''strip'') | Some s \<Rightarrow> Inr s),
                 get_profile = (\<lambda>u. Inr (if u = ''al'' then Some al_profile else None)),
                 get_media_id = (\<lambda>page. Inr [''p1'']),
                 get_media_content = (\<lambda>media. Inr (if media = ''p1'' then Some one_image else None))\<rparr>"

definition al_args :: args where
  "al_args = \<lparr>arg_username = Some ''al'', arg_images = True, arg_videos = False,
               arg_thumbnails = False, arg_all = False, arg_verbose = False\<rparr>"

definition verbose_only_args :: args where
  "verbose_only_args = \<lparr>arg_username = Some ''al'', arg_images = False, arg_videos = False,
               arg_thumbnails = False, arg_all = False, arg_verbose = True\<rparr>"

definition no_flag_args :: args where
  "no_flag_args = \<lparr>arg_username = Some ''al'', arg_images = False, arg_videos = False,
               arg_thumbnails = False, arg_all = False, arg_verbose = False\<rparr>"

text \<open>
  Two user directories \<^verbatim>\<open>/w/al\<close>: one holding a directory \<^verbatim>\<open>total\<close> with a file of five
  bytes, one holding an empty directory \<^verbatim>\<open>cache\<close>.
\<close>

definition total_dir_fs :: filesys where
  "total_dir_fs = \<lparr>cwd = [''w''],
     entries = [([''w''], Dir 4096), ([''w'', ''al''], Dir 4096), ([''w'', ''al'', ''total''], Dir 4096),
                ([''w'', ''al'', ''total'', ''x.bin''], File 5)],
     readonly = [], dir_size = 4096\<rparr>"



text \<open>
  The disk after an earlier download of the image into the directory that \<^verbatim>\<open>_main\<close>
  passes: the file is named by the hash of its URL and the extension of its content type.
\<close>

definition downloaded_fs :: filesys where
  "downloaded_fs = \<lparr>cwd = [''w''],
     entries = [([''w''], Dir 4096), ([''w'', ''images''], Dir 4096), ([''w'', ''images'', ''al''], Dir 4096),
                ([''w'', ''images'', ''al'', ''images''], Dir 4096),
                ([''w'', ''images'', ''al'', ''images'', ''037052ef0569aa3af63d36b629044f97.jpeg''], File 10)],
     readonly = [], dir_size = 4096\<rparr>"

text \<open>The disk after a run for \<^verbatim>\<open>al\<close> with \<^verbatim>\<open>--images\<close> from \<open>home_fs\<close>.\<close>

definition after_run_fs :: filesys where
  "after_run_fs = \<lparr>cwd = [''w''],
     entries = [([''w''], Dir 4096), ([''w'', ''images''], Dir 4096), ([''w'', ''images'', ''al''], Dir 4096),
                ([''w'', ''images'', ''al'', ''images''], Dir 4096)],
     readonly = [], dir_size = 4096\<rparr>"

definition al_run_trace :: "event list" where
  "al_run_trace =
     [ShowTable ''information'' [(''username'', StrV ''al'')],
      LogInfo ''Total Media Collected: 1'',
      LogInfo (''Selected media: ['' @ repr_str ''images'' @ ''], starting download..''),
      LogInfo ''Getting content from: p1 [1 of 1]'',
      ShowTable ''information'' [(''likes'', IntV 3)],
      LogInfo ''Total images collected: 1'',
      LogInfo ''Downloading images (1 of 1)'',
      ConsolePrint ''[green] /w/images/al/images/037052ef0569aa3af63d36b629044f97 [green] file exists!'',
      Sleep 1,
      ShowTable ''Total Size for al''
        [(''total'', IntV 0), (''images'', IntV 0), (''videos'', IntV 0), (''thumbnails'', IntV 0)]]"

text \<open>
  An HTTP server that answers the image URL with six bytes of \<^verbatim>\<open>image/jpeg\<close> in two
  chunks, and every other URL with a body that has no \<^verbatim>\<open>Content-Type\<close> header.
\<close>

definition jpeg_response :: response where
  "jpeg_response = \<lparr>content_type = Some ''image/jpeg'', content_length = IntValue 6,
                     chunks = [''abcd'', ''ef''], stream_error = None\<rparr>"

definition untyped_response :: response where
  "untyped_response = \<lparr>content_type = None, content_length = Absent,
                        chunks = [''abcd''], stream_error = None\<rparr>"

definition cdn :: "string \<Rightarrow> http_result" where
  "cdn u = (if u = image_url then HttpResponse jpeg_response else HttpResponse untyped_response)"

definition image_filename :: string where
  "image_filename = ''/w/images/al/images/037052ef0569aa3af63d36b629044f97''"

text \<open>
  A scraper module for a user with two posts whose connection is reset while the first
  post is resolved.
\<close>

definition reset_module :: picuki where
  "reset_module = \<lparr>clear_username = (\<lambda>u. case u of None \<Rightarrow> Inl (Exn AttributeError ''strip'') | Some s \<Rightarrow> Inr s),
                 get_profile = (\<lambda>u. Inr (Some al_profile)),
                 get_media_id = (\<lambda>page. Inr [''p1'', ''p2'']),
                 get_media_content = (\<lambda>media. if media = ''p1'' then Inl (Exn ReadError ''connection reset'')
                                               else Inr (Some one_image))\<rparr>"

text \<open>
  A scraper module for a user with two posts: resolving the first one times out, the
  second one resolves to nothing.
\<close>

definition timeout_module :: picuki where
  "timeout_module = \<lparr>clear_username = (\<lambda>u. case u of None \<Rightarrow> Inl (Exn AttributeError ''strip'') | Some s \<Rightarrow> Inr s),
                 get_profile = (\<lambda>u. Inr (Some al_profile)),
                 get_media_id = (\<lambda>page. Inr [''p1'', ''p2'']),
                 get_media_content = (\<lambda>media. if media = ''p1'' then Inl (Exn ReadTimeout ''timed out'')
                                               else Inr None)\<rparr>"


text \<open>
  A disk on which \<^verbatim>\<open>/w/images/images\<close> is a file, and a scraper module whose
  \<^verbatim>\<open>clear_username\<close> passes the name on unchanged, for a user with one post that holds an
  image and a video.
\<close>

definition shadowed_fs :: filesys where
  "shadowed_fs = \<lparr>cwd = [''w''],
     entries = [([''w''], Dir 4096), ([''w'', ''images''], Dir 4096), ([''w'', ''images'', ''images''], File 3)],
     readonly = [], dir_size = 4096\<rparr>"

definition image_and_video :: content where
  "image_and_video = \<lparr>content_fields = [],
     content_media = Some \<lparr>media_images = Some [Some image_url],
                            media_videos = Some [\<lparr>video_thumbnail = None, video_url = Some image_url\<rparr>]\<rparr>\<rparr>"

definition dotted_module :: picuki where
  "dotted_module = \<lparr>clear_username = (\<lambda>u. case u of None \<Rightarrow> Inl (Exn AttributeError ''strip'') | Some s \<Rightarrow> Inr s),
                 get_profile = (\<lambda>u. Inr (Some al_profile)),
                 get_media_id = (\<lambda>page. Inr [''p1'']),
                 get_media_content = (\<lambda>media. Inr (Some image_and_video))\<rparr>"

definition dotted_args :: args where
  "dotted_args = \<lparr>arg_username = Some ''a/..'', arg_images = True, arg_videos = True,
               arg_thumbnails = False, arg_all = False, arg_verbose = False\<rparr>"

chapter \<open>Properties\<close>

section \<open>Evaluating MD5\<close>

lemma replicate_numeral_unfold: "replicate (numeral k) x = x # replicate (pred_numeral k) x"
  by (simp add: numeral_eq_Suc)

lemma md5_chunks_numeral: "md5_chunks (numeral k) st bs = md5_chunks (pred_numeral k) (md5_chunk st (take 64 bs)) (drop 64 bs)"
  by (simp add: numeral_eq_Suc)

lemmas md5_eval = md5_hexdigest_def hexdigest_def md5_digest_def md5_pad_def encode_def le_bytes4_def
  replicate_numeral_unfold md5_chunks_numeral md5_chunk_def md5_F_def md5_g_def md5_K_def md5_s_def
  rotl32_def add32_def not32_def hex_byte_def hex_digit_def

text \<open>The RFC 1321 test vectors for the empty string and for \<^verbatim>\<open>abc\<close>.\<close>

lemma md5_empty: "md5_hexdigest '''' = ''d41d8cd98f00b204e9800998ecf8427e''"
  by (simp add: md5_eval)

lemma md5_abc: "md5_hexdigest ''abc'' = ''900150983cd24fb0d6963f7d28e17f72''"
  by (simp add: md5_eval)

lemma md5_image_url: "md5_hexdigest image_url = ''037052ef0569aa3af63d36b629044f97''"
  by (simp add: md5_eval image_url_def)

section \<open>The walk along a path\<close>

text \<open>
  On the empty disk with working directory \<^verbatim>\<open>/w\<close>, the path \<^verbatim>\<open>/w/images/../up/images\<close>
  does not exist, and neither does \<^verbatim>\<open>/w/images/..\<close>, although its lexical resolution
  \<^verbatim>\<open>/w\<close> does.  \<^verbatim>\<open>os.makedirs\<close> creates \<^verbatim>\<open>/w/images\<close> on its way to \<^verbatim>\<open>/w/up/images\<close>.
  On a file the walk stops: nothing is created below \<^verbatim>\<open>/w/al/total/x.bin\<close>.
\<close>

lemma walk_needs_directories:
  "\<not> os_path_exists home_fs ''/w/images/../up/images''
   \<and> \<not> os_path_exists home_fs ''/w/images/..''
   \<and> os_path_exists home_fs ''/w/./''
   \<and> resolve home_fs ''/w/images/..'' = [''w'']"
  by (simp add: os_path_exists_def start_of_def resolve_def is_dir_at_def inode_at_def home_fs_def)

lemma makedirs_enters_and_leaves:
  "fst (os_makedirs home_fs ''/w/images/../up/images'') = None
   \<and> map fst (entries (snd (os_makedirs home_fs ''/w/images/../up/images'')))
       = [[''w''], [''w'', ''images''], [''w'', ''up''], [''w'', ''up'', ''images'']]"
  by (simp add: os_makedirs_def start_of_def mkdir_def is_dir_at_def inode_at_def home_fs_def)

lemma makedirs_stops_at_a_file:
  "os_makedirs total_dir_fs ''/w/al/total/x.bin/sub''
     = (Some (Exn NotADirectoryError ''/w/al/total/x.bin/sub''), total_dir_fs)
   \<and> os_makedirs total_dir_fs ''/w/al/total/x.bin''
     = (Some (Exn FileExistsError ''/w/al/total/x.bin''), total_dir_fs)"
  by (simp add: os_makedirs_def start_of_def mkdir_def is_dir_at_def inode_at_def render_def total_dir_fs_def)

section \<open>The guard on the URL\<close>

lemmas path_eval = os_path_join_def os_path_realpath_def os_path_exists_def os_makedirs_def
  resolve_def render_def inode_at_def is_dir_at_def mkdir_def output_folder_of_def filename_of_def
  ensure_folder_def start_of_def

lemmas world_eval = emit_def and_then_def except_matches_def show_table_def

text \<open>
  \<^bold>\<open>C9\<close>, as amended.  A call of \<^verbatim>\<open>_download_media\<close> without a URL (\<^verbatim>\<open>None\<close>) fails at
  once with the assertion error of the source, and the world is exactly as before: no
  directory was created, nothing was looked up, nothing was printed or requested.
\<close>

theorem download_media_none_fails_fast:
  "download_media None username media_type output w
     = (Some (Exn AssertionError ''Stopped, no URL to download.''), w)"
  by (simp add: download_media_def)

text \<open>
  The empty string is not \<^verbatim>\<open>None\<close>: the assertion passes, the call creates the
  directories and returns normally.
\<close>

theorem download_media_empty_url_proceeds:
  "fst (download_media (Some '''') ''al'' ''images'' ''images'' home_world) = None
   \<and> entries (disk (snd (download_media (Some '''') ''al'' ''images'' ''images'' home_world)))
       = [([''w''], Dir 4096), ([''w'', ''images''], Dir 4096), ([''w'', ''images'', ''al''], Dir 4096),
          ([''w'', ''images'', ''al'', ''images''], Dir 4096)]"
  by (simp add: download_media_def home_world_def home_fs_def path_eval world_eval md5_empty
        Let_def)

section \<open>The \<^verbatim>\<open>except\<close> clauses of the loop\<close>

text \<open>
  \<^bold>\<open>C7\<close>.  The second \<^verbatim>\<open>except\<close> clause of the loop in \<^verbatim>\<open>_main\<close> is dead: no exception
  selects it, because every exception it matches is matched by the first clause, which
  Python tries first.
\<close>

theorem second_except_clause_dead:
  "handler_for e \<noteq> Some SecondExcept
   \<and> (except_matches [CancelledError, SSLWantReadError] e \<longrightarrow> handler_for e = Some FirstExcept)"
  by (cases e) (auto simp: handler_for_def except_matches_def)

theorem second_except_clause_dead_witness:
  "except_matches [CancelledError, SSLWantReadError] (Exn SSLWantReadError ''read'')
   \<and> handler_for (Exn SSLWantReadError ''read'') = Some FirstExcept
   \<and> handler_for (Exn SSLWantReadError ''read'') \<noteq> Some SecondExcept"
  using second_except_clause_dead [of "Exn SSLWantReadError ''read''"]
  by (simp add: except_matches_def)

section \<open>The argument gate\<close>

lemma show_nat_digit: "n < 10 \<Longrightarrow> show_nat n = [''0123456789'' ! n]"
  by (simp add: show_nat.simps)

lemmas size_eval = calculate_result_and_show_table_def calculate_total_size_def top_level_def
  children_def initial_sizes_def add_to_key_def size_rows_def

lemmas main_eval = main_block_def gate_def truthy_def main_async_def selected_of_def repr_list_def
  try_body_def images_stage_def videos_stage_def handle_exception_def handler_for_def
  download_thumbnail_def download_video_def

lemma verbose_only_run:
  "main_block al_module verbose_only_args home_world =
     (None, \<lparr>disk = home_fs,
             trace = [SetLevelDebug,
                      ShowTable ''information'' [(''username'', StrV ''al'')],
                      LogInfo ''Total Media Collected: 1'',
                      LogInfo ''Selected media: [], starting download..'',
                      LogInfo ''Getting content from: p1 [1 of 1]'',
                      ShowTable ''information'' [(''likes'', IntV 3)],
                      Sleep 1,
                      ShowTable ''Total Size for al''
                        [(''total'', IntV 0), (''images'', IntV 0), (''videos'', IntV 0),
                         (''thumbnails'', IntV 0)]]\<rparr>)"
  by (simp add: main_eval size_eval path_eval world_eval al_module_def al_profile_def one_image_def
      verbose_only_args_def home_world_def home_fs_def show_nat_digit)

text \<open>
  \<^bold>\<open>C5\<close>, as amended.  Without a user name, or with none of \<^verbatim>\<open>--images\<close>, \<^verbatim>\<open>--videos\<close>,
  \<^verbatim>\<open>--thumbnails\<close>, \<^verbatim>\<open>--all\<close> and \<^verbatim>\<open>--verbose\<close>, the tool prints the help text and does
  nothing else.  Inside \<^verbatim>\<open>_main\<close> the flag \<^verbatim>\<open>--verbose\<close> only switches the log level
  before anything else happens.
\<close>

theorem help_without_flag:
  "(\<not> truthy (arg_username a)
      \<or> \<not> (arg_images a \<or> arg_videos a \<or> arg_thumbnails a \<or> arg_all a \<or> arg_verbose a)
      \<longrightarrow> main_block module a w = (None, emit PrintHelp w))
   \<and> main_async module (a\<lparr>arg_verbose := True\<rparr>) w
       = main_async module (a\<lparr>arg_verbose := False\<rparr>) (emit SetLevelDebug w)"
proof -
  have sel: "selected_of (a\<lparr>arg_verbose := b\<rparr>) = selected_of a" for b
    by (simp add: selected_of_def)
  have gate_closed: "\<not> truthy (arg_username a)
      \<or> \<not> (arg_images a \<or> arg_videos a \<or> arg_thumbnails a \<or> arg_all a \<or> arg_verbose a)
      \<longrightarrow> main_block module a w = (None, emit PrintHelp w)"
    by (auto simp: main_block_def gate_def)
  have flag_only_logs: "main_async module (a\<lparr>arg_verbose := True\<rparr>) w
       = main_async module (a\<lparr>arg_verbose := False\<rparr>) (emit SetLevelDebug w)"
    unfolding main_async_def sel by simp
  from gate_closed flag_only_logs show ?thesis by blast
qed

theorem help_without_flag_witness:
  "\<not> (arg_images no_flag_args \<or> arg_videos no_flag_args \<or> arg_thumbnails no_flag_args
        \<or> arg_all no_flag_args \<or> arg_verbose no_flag_args)
   \<and> main_block al_module no_flag_args home_world = (None, emit PrintHelp home_world)"
  using help_without_flag [of no_flag_args al_module home_world]
  by (simp add: no_flag_args_def)

text \<open>
  With \<^verbatim>\<open>--username al --verbose\<close> and no media flag the gate is open: no help text is
  printed and the pipeline runs, with an empty selection.
\<close>

theorem verbose_alone_runs_pipeline:
  "PrintHelp \<notin> set (trace (snd (main_block al_module verbose_only_args home_world)))
   \<and> LogInfo ''Selected media: [], starting download..''
       \<in> set (trace (snd (main_block al_module verbose_only_args home_world)))"
  by (simp add: verbose_only_run)

section \<open>The size summary\<close>














section \<open>Where a download goes and what the existence check looks at\<close>

text \<open>
  \<^bold>\<open>C1\<close>, at a failing input.  The destination directory holds the file
  \<^verbatim>\<open>037052ef0569aa3af63d36b629044f97.jpeg\<close>, whose name begins with the MD5 hash of the
  URL, so the check the specification describes succeeds.  The source tests the exact
  name without extension, finds nothing and takes the branch that is not the skip.
\<close>

theorem download_media_ignores_hash_prefix:
  "hash_prefix_exists downloaded_fs (output_folder_of downloaded_fs ''al'' ''images'' ''images'')
      (md5_hexdigest image_url)
   \<and> \<not> os_path_exists downloaded_fs (filename_of downloaded_fs image_url ''al'' ''images'' ''images'')
   \<and> download_media (Some image_url) ''al'' ''images'' ''images'' \<lparr>disk = downloaded_fs, trace = []\<rparr>
       = (None, \<lparr>disk = downloaded_fs,
                 trace = [ConsolePrint
                   ''[green] /w/images/al/images/037052ef0569aa3af63d36b629044f97 [green] file exists!'']\<rparr>)"
  by (simp add: download_media_def hash_prefix_exists_def children_def downloaded_fs_def path_eval
        world_eval md5_image_url Let_def)

lemma al_images_run:
  "main_block al_module al_args home_world = (None, \<lparr>disk = after_run_fs, trace = al_run_trace\<rparr>)"
  by (simp add: main_eval size_eval path_eval world_eval al_module_def al_profile_def one_image_def
      al_args_def home_world_def home_fs_def after_run_fs_def al_run_trace_def show_nat_digit
      download_media_def md5_image_url Let_def repr_str_def)

text \<open>
  \<^bold>\<open>C4\<close>, at a failing input.  For the user \<^verbatim>\<open>al\<close> and the category \<^verbatim>\<open>images\<close>, started
  in \<^verbatim>\<open>/w\<close>, the download step works in \<^verbatim>\<open>/w/images/al/images\<close>: \<^verbatim>\<open>_main\<close> passes the
  category as output root as well.  The summary scans \<^verbatim>\<open>/w/al\<close>, which the run never
  creates.
\<close>

theorem download_folder_is_not_under_username:
  "resolve home_fs (output_folder_of home_fs ''al'' ''images'' ''images'') = [''w'', ''images'', ''al'', ''images'']
   \<and> user_dir home_fs ''al'' = [''w'', ''al'']
   \<and> map fst (entries (disk (snd (main_block al_module al_args home_world))))
       = [[''w''], [''w'', ''images''], [''w'', ''images'', ''al''], [''w'', ''images'', ''al'', ''images'']]
   \<and> inode_at (disk (snd (main_block al_module al_args home_world))) [''w'', ''al''] = None"
  by (simp add: al_images_run after_run_fs_def user_dir_def home_fs_def path_eval)

section \<open>The streaming fetch\<close>

lemma split_slash_not_Nil: "split_slash s \<noteq> []"
  by (induction s) (auto split: list.splits)

lemma split_slash_no_separator: "CHR ''/'' \<notin> set s \<Longrightarrow> split_slash s = [s]"
  by (induction s) auto

lemma split_slash_append:
  "\<exists>ps. ps \<noteq> [] \<and> split_slash (t @ CHR ''/'' # s) = ps @ split_slash s"
proof (induction t)
  case Nil
  have "split_slash ([] @ CHR ''/'' # s) = [[]] @ split_slash s" by simp
  then show ?case by blast
next
  case (Cons c t)
  then obtain p ps where ps: "split_slash (t @ CHR ''/'' # s) = (p # ps) @ split_slash s"
    by (metis list.exhaust)
  show ?case
  proof (cases "c = CHR ''/''")
    case True
    with ps have "split_slash ((c # t) @ CHR ''/'' # s) = ([] # p # ps) @ split_slash s"
      by simp
    then show ?thesis by blast
  next
    case False
    with ps have "split_slash ((c # t) @ CHR ''/'' # s) = ((c # p) # ps) @ split_slash s"
      by simp
    then show ?thesis by blast
  qed
qed

lemma last_split_slash_append: "last (split_slash (t @ CHR ''/'' # s)) = last (split_slash s)"
proof -
  from split_slash_append [of t s] obtain ps where
    "split_slash (t @ CHR ''/'' # s) = ps @ split_slash s" by blast
  then show ?thesis
    by (simp add: split_slash_not_Nil)
qed

lemma subtype_is_extension:
  assumes "CHR ''/'' \<notin> set s"
  shows "last (split_slash (t @ ''/'' @ s)) = s"
  using last_split_slash_append [of t s] split_slash_no_separator [OF assms] by simp

lemma map_of_set_inode: "map_of (set_inode p n es) q = (if q = p then Some n else map_of es q)"
  by (induction es) auto

lemma inode_at_open_wb:
  assumes "open_wb fs p = Inr fs'"
  shows "inode_at fs' q = (if q = p then Some (File 0) else inode_at fs q)"
proof -
  have "p \<noteq> []"
    using assms by (auto simp: open_wb_def inode_at_def)
  moreover have "fs' = fs\<lparr>entries := set_inode p (File 0) (entries fs)\<rparr>"
    using assms by (auto simp: open_wb_def split: option.splits inode.splits if_splits)
  ultimately show ?thesis
    by (simp add: inode_at_def map_of_set_inode)
qed

lemma inode_at_write_bytes:
  assumes "inode_at fs p = Some (File k)"
  shows "inode_at (write_bytes fs p n) q = (if q = p then Some (File (k + n)) else inode_at fs q)"
proof -
  have "p \<noteq> []"
    using assms by (auto simp: inode_at_def)
  with assms show ?thesis
    by (simp add: write_bytes_def inode_at_def map_of_set_inode)
qed

lemma inode_at_write_chunks:
  assumes "inode_at fs p = Some (File k)"
  shows "inode_at (foldl (\<lambda>fs c. write_bytes fs p (length c)) fs cs) q
           = (if q = p then Some (File (k + sum_list (map length cs))) else inode_at fs q)"
  using assms
proof (induction cs arbitrary: fs k)
  case Nil
  then show ?case by simp
next
  case (Cons c cs)
  have "inode_at (write_bytes fs p (length c)) p = Some (File (k + length c))"
    using inode_at_write_bytes [OF Cons.prems] by simp
  from Cons.IH [OF this] inode_at_write_bytes [OF Cons.prems, of "length c" q]
  show ?case by (simp add: add.assoc)
qed

text \<open>What \<open>fetch_body\<close> does to the disk once the response names a content type.\<close>

lemma fetch_body_typed:
  fixes w :: world and filename ext :: string
  assumes "http url = HttpResponse resp" and "content_type resp = Some ext" and "ext \<noteq> []"
  defines "target \<equiv> resolve (disk w) (filename @ ''.'' @ last (split_slash ext))"
  shows "q \<noteq> target \<Longrightarrow> inode_at (disk (snd (fetch_body http url filename w))) q = inode_at (disk w) q"
    and "fst (fetch_body http url filename w) = None \<Longrightarrow>
           inode_at (disk (snd (fetch_body http url filename w))) target
             = Some (File (sum_list (map length (chunks resp))))
           \<and> trace (snd (fetch_body http url filename w))
             = trace w @ [ConsolePrint (''[green] Completed.. saved as: [blue]'' @ filename @ ''.''
                                        @ last (split_slash ext))]"
proof -
  show "inode_at (disk (snd (fetch_body http url filename w))) q = inode_at (disk w) q" if "q \<noteq> target"
  proof (cases "open_wb (disk w) target")
    case (Inl e)
    then show ?thesis
      using assms(1-3) by (simp add: fetch_body_def target_def Let_def)
  next
    case (Inr fs1)
    have f0: "inode_at fs1 target = Some (File 0)"
      using inode_at_open_wb [OF Inr] by simp
    have f1: "inode_at fs1 q = inode_at (disk w) q"
      using inode_at_open_wb [OF Inr] that by simp
    from inode_at_write_chunks [OF f0, of "chunks resp" q] that f1 Inr assms(1-3)
    show ?thesis
      by (auto simp: fetch_body_def target_def Let_def emit_def split: option.splits)
  qed
  show "inode_at (disk (snd (fetch_body http url filename w))) target
             = Some (File (sum_list (map length (chunks resp))))
           \<and> trace (snd (fetch_body http url filename w))
             = trace w @ [ConsolePrint (''[green] Completed.. saved as: [blue]'' @ filename @ ''.''
                                        @ last (split_slash ext))]"
    if "fst (fetch_body http url filename w) = None"
  proof (cases "open_wb (disk w) target")
    case (Inl e)
    then show ?thesis
      using assms(1-3) that by (simp add: fetch_body_def target_def Let_def)
  next
    case (Inr fs1)
    have f0: "inode_at fs1 target = Some (File 0)"
      using inode_at_open_wb [OF Inr] by simp
    from inode_at_write_chunks [OF f0, of "chunks resp" target] Inr assms(1-3) that
    show ?thesis
      by (auto simp: fetch_body_def target_def Let_def emit_def split: option.splits if_splits)
  qed
qed

lemma open_wb_not_timeout: "open_wb fs p = Inl e \<Longrightarrow> class_of e \<noteq> TimeoutError"
  by (auto simp: open_wb_def split: option.splits inode.splits if_splits)

lemma fetch_body_not_timeout:
  assumes "http url = HttpResponse resp" and "stream_error resp = None"
    and "fst (fetch_body http url filename w) = Some e"
  shows "class_of e \<noteq> TimeoutError"
  using assms open_wb_not_timeout
  by (auto simp: fetch_body_def Let_def split: option.splits if_splits sum.splits)

lemma download_file_async_disk:
  "disk (snd (download_file_async http url filename w))
     = disk (snd (fetch_body http url filename (emit (HttpGet url) w)))"
  by (cases "fetch_body http url filename (emit (HttpGet url) w)")
     (auto simp: download_file_async_def emit_def split: option.splits)

lemma download_file_async_completed:
  assumes "http url = HttpResponse resp" and "stream_error resp = None"
    and "fst (download_file_async http url filename w) = None"
  shows "fst (fetch_body http url filename (emit (HttpGet url) w)) = None
         \<and> trace (snd (download_file_async http url filename w))
             = trace (snd (fetch_body http url filename (emit (HttpGet url) w)))"
proof (cases "fst (fetch_body http url filename (emit (HttpGet url) w))")
  case None
  then show ?thesis
    by (cases "fetch_body http url filename (emit (HttpGet url) w)")
       (simp add: download_file_async_def)
next
  case (Some e)
  from fetch_body_not_timeout [OF assms(1,2) Some] have "\<not> except_matches [TimeoutError] e"
    by (simp add: except_matches_def)
  with Some assms(3) show ?thesis
    by (cases "fetch_body http url filename (emit (HttpGet url) w)")
       (simp add: download_file_async_def)
qed

text \<open>
  \<^bold>\<open>C8\<close>.  A response without a \<^verbatim>\<open>Content-Type\<close> header (or with an empty one) makes the
  fetch fail with the \<^verbatim>\<open>ValueError\<close> of the source right after the request: the disk
  is untouched, so no file with a \<^verbatim>\<open>None\<close> extension exists.  With a content type
  \<^verbatim>\<open>type/subtype\<close> the only path the fetch can touch is the file name followed by a dot
  and the subtype, and when the fetch completes that file holds the whole body.
\<close>

theorem download_file_async_content_type:
  "(http url = HttpResponse resp \<and> (content_type resp = None \<or> content_type resp = Some '''')
      \<longrightarrow> download_file_async http url filename w
          = (Some (Exn ValueError (''Cannot get mimetype of content: '' @ url)), emit (HttpGet url) w))
   \<and> (http url = HttpResponse resp \<and> content_type resp = Some (t @ ''/'' @ s) \<and> CHR ''/'' \<notin> set s
      \<longrightarrow> (\<forall>q. q \<noteq> resolve (disk w) (filename @ ''.'' @ s)
              \<longrightarrow> inode_at (disk (snd (download_file_async http url filename w))) q = inode_at (disk w) q)
        \<and> (fst (download_file_async http url filename w) = None \<and> stream_error resp = None
              \<longrightarrow> inode_at (disk (snd (download_file_async http url filename w)))
                       (resolve (disk w) (filename @ ''.'' @ s))
                     = Some (File (sum_list (map length (chunks resp))))
                  \<and> trace (snd (download_file_async http url filename w))
                     = trace w @ [HttpGet url,
                          ConsolePrint (''[green] Completed.. saved as: [blue]'' @ filename @ ''.'' @ s)]))"
proof -
  have untyped: "download_file_async http url filename w
          = (Some (Exn ValueError (''Cannot get mimetype of content: '' @ url)), emit (HttpGet url) w)"
    if "http url = HttpResponse resp" and "content_type resp = None \<or> content_type resp = Some ''''"
    using that by (auto simp: download_file_async_def fetch_body_def except_matches_def)
  have typed: "(\<forall>q. q \<noteq> resolve (disk w) (filename @ ''.'' @ s)
              \<longrightarrow> inode_at (disk (snd (download_file_async http url filename w))) q = inode_at (disk w) q)
        \<and> (fst (download_file_async http url filename w) = None \<and> stream_error resp = None
              \<longrightarrow> inode_at (disk (snd (download_file_async http url filename w)))
                       (resolve (disk w) (filename @ ''.'' @ s))
                     = Some (File (sum_list (map length (chunks resp))))
                  \<and> trace (snd (download_file_async http url filename w))
                     = trace w @ [HttpGet url,
                          ConsolePrint (''[green] Completed.. saved as: [blue]'' @ filename @ ''.'' @ s)])"
    if h: "http url = HttpResponse resp" and ct: "content_type resp = Some (t @ ''/'' @ s)"
      and sep: "CHR ''/'' \<notin> set s"
  proof -
    have ne: "t @ ''/'' @ s \<noteq> []" by simp
    have ext: "last (split_slash (t @ ''/'' @ s)) = s"
      by (rule subtype_is_extension [OF sep])
    have d0: "disk (emit (HttpGet url) w) = disk w" and t0: "trace (emit (HttpGet url) w) = trace w @ [HttpGet url]"
      by (simp_all add: emit_def)
    note fb = fetch_body_typed [where http = http and url = url and resp = resp
        and ext = "t @ ''/'' @ s" and w = "emit (HttpGet url) w" and filename = filename,
        OF h ct ne, unfolded ext d0 t0]
    have frame: "inode_at (disk (snd (download_file_async http url filename w))) q = inode_at (disk w) q"
      if "q \<noteq> resolve (disk w) (filename @ ''.'' @ s)" for q
      using fb(1) [OF that] by (simp add: download_file_async_disk)
    have completed: "inode_at (disk (snd (download_file_async http url filename w)))
                       (resolve (disk w) (filename @ ''.'' @ s))
                     = Some (File (sum_list (map length (chunks resp))))
                  \<and> trace (snd (download_file_async http url filename w))
                     = trace w @ [HttpGet url,
                          ConsolePrint (''[green] Completed.. saved as: [blue]'' @ filename @ ''.'' @ s)]"
      if "fst (download_file_async http url filename w) = None" and "stream_error resp = None"
      using download_file_async_completed [OF h that(2) that(1)] fb(2)
      by (simp add: download_file_async_disk)
    from frame completed show ?thesis by blast
  qed
  from untyped typed show ?thesis by blast
qed

lemma jpeg_download_run:
  "download_file_async cdn image_url image_filename \<lparr>disk = after_run_fs, trace = []\<rparr>
     = (None, \<lparr>disk = after_run_fs\<lparr>entries := entries after_run_fs @
                   [([''w'', ''images'', ''al'', ''images'', ''037052ef0569aa3af63d36b629044f97.jpeg''], File 6)]\<rparr>,
               trace = [HttpGet image_url,
                        ConsolePrint (''[green] Completed.. saved as: [blue]'' @ image_filename @ ''.jpeg'')]\<rparr>)"
  by (simp add: download_file_async_def fetch_body_def cdn_def jpeg_response_def image_filename_def
        after_run_fs_def open_wb_def write_bytes_def path_eval world_eval Let_def image_url_def)

theorem download_file_async_content_type_witness:
  "cdn ''http://x/none'' = HttpResponse untyped_response \<and> content_type untyped_response = None
   \<and> download_file_async cdn ''http://x/none'' image_filename \<lparr>disk = after_run_fs, trace = []\<rparr>
       = (Some (Exn ValueError ''Cannot get mimetype of content: http://x/none''),
          \<lparr>disk = after_run_fs, trace = [HttpGet ''http://x/none'']\<rparr>)
   \<and> cdn image_url = HttpResponse jpeg_response \<and> content_type jpeg_response = Some (''image'' @ ''/'' @ ''jpeg'')
   \<and> fst (download_file_async cdn image_url image_filename \<lparr>disk = after_run_fs, trace = []\<rparr>) = None
   \<and> stream_error jpeg_response = None
   \<and> inode_at (disk (snd (download_file_async cdn image_url image_filename \<lparr>disk = after_run_fs, trace = []\<rparr>)))
        (resolve after_run_fs (image_filename @ ''.'' @ ''jpeg'')) = Some (File 6)
   \<and> inode_at (disk (snd (download_file_async cdn image_url image_filename \<lparr>disk = after_run_fs, trace = []\<rparr>)))
        [''w'', ''images'', ''al'', ''images'', ''037052ef0569aa3af63d36b629044f97''] = None"
proof -
  have c1: "cdn ''http://x/none'' = HttpResponse untyped_response"
    by (simp add: cdn_def image_url_def)
  have c2: "cdn image_url = HttpResponse jpeg_response"
    by (simp add: cdn_def)
  have r: "resolve after_run_fs (image_filename @ ''.'' @ ''jpeg'')
             = [''w'', ''images'', ''al'', ''images'', ''037052ef0569aa3af63d36b629044f97.jpeg'']"
    by (simp add: resolve_def image_filename_def)
  have f: "inode_at (after_run_fs\<lparr>entries := entries after_run_fs @
                   [([''w'', ''images'', ''al'', ''images'', ''037052ef0569aa3af63d36b629044f97.jpeg''], File 6)]\<rparr>)
             [''w'', ''images'', ''al'', ''images'', ''037052ef0569aa3af63d36b629044f97''] = None"
    by (simp add: inode_at_def after_run_fs_def)
  show ?thesis
    using download_file_async_content_type [of cdn "''http://x/none''" untyped_response image_filename
          "\<lparr>disk = after_run_fs, trace = []\<rparr>" "''image''" "''jpeg''"]
        download_file_async_content_type [of cdn image_url jpeg_response image_filename
          "\<lparr>disk = after_run_fs, trace = []\<rparr>" "''image''" "''jpeg''"]
    by (simp add: c1 c2 r f jpeg_download_run untyped_response_def jpeg_response_def emit_def)
qed

section \<open>Failures of a single item\<close>

text \<open>
  \<^bold>\<open>C6\<close>, as amended.  In the loop over the media identifiers, an item whose content
  record is false is logged with a warning that names it, and the loop goes on with the
  next identifier.  An item for which resolving or downloading raises
  \<^verbatim>\<open>httpx.ReadTimeout\<close>, \<^verbatim>\<open>CancelledError\<close> or \<^verbatim>\<open>SSLWantReadError\<close> is logged with a
  warning that carries the text of the exception and the identifier; after a pause of
  one second the loop goes on with the next identifier.  An exception of any other
  class leaves the loop, and with it \<^verbatim>\<open>_main\<close>, at that item.
\<close>

theorem media_loop_item_failures:
  "(get_media_content module media = Inr None
      \<longrightarrow> media_loop module selected username n index (media # rest) w
          = media_loop module selected username n (Suc index) rest
              (emit (LogWarning (''Cannot get content from media ID: '' @ media))
                 (emit (LogInfo (''Getting content from: '' @ media @ '' ['' @ show_nat index @ '' of ''
                                 @ show_nat n @ '']'')) w)))
   \<and> (try_body module selected username media
          (emit (LogInfo (''Getting content from: '' @ media @ '' ['' @ show_nat index @ '' of ''
                          @ show_nat n @ '']'')) w) = (Some e, w')
        \<and> class_of e \<in> {ReadTimeout, CancelledError, SSLWantReadError}
      \<longrightarrow> media_loop module selected username n index (media # rest) w
          = media_loop module selected username n (Suc index) rest
              (emit (Sleep 1)
                 (emit (LogWarning (''Exception: '' @ str_of e @ '', in media ID: '' @ media)) w')))
   \<and> (try_body module selected username media
          (emit (LogInfo (''Getting content from: '' @ media @ '' ['' @ show_nat index @ '' of ''
                          @ show_nat n @ '']'')) w) = (Some e, w')
        \<and> class_of e \<notin> {ReadTimeout, CancelledError, SSLWantReadError}
      \<longrightarrow> media_loop module selected username n index (media # rest) w = (Some e, w'))"
proof -
  have a: "get_media_content module media = Inr None
      \<longrightarrow> media_loop module selected username n index (media # rest) w
          = media_loop module selected username n (Suc index) rest
              (emit (LogWarning (''Cannot get content from media ID: '' @ media))
                 (emit (LogInfo (''Getting content from: '' @ media @ '' ['' @ show_nat index @ '' of ''
                                 @ show_nat n @ '']'')) w))"
    by (simp add: try_body_def)
  have h1: "class_of e \<in> {ReadTimeout, CancelledError, SSLWantReadError} \<Longrightarrow> handler_for e = Some FirstExcept"
    by (auto simp: handler_for_def except_matches_def)
  have h2: "class_of e \<notin> {ReadTimeout, CancelledError, SSLWantReadError} \<Longrightarrow> handler_for e = None"
    by (auto simp: handler_for_def except_matches_def)
  from a h1 h2 show ?thesis by (simp add: handle_exception_def)
qed

lemma timeout_then_nothing_run:
  "media_loop timeout_module [''images''] ''al'' 2 1 [''p1'', ''p2''] home_world
     = (None, \<lparr>disk = home_fs,
               trace = [LogInfo ''Getting content from: p1 [1 of 2]'',
                        LogWarning ''Exception: timed out, in media ID: p1'',
                        Sleep 1,
                        LogInfo ''Getting content from: p2 [2 of 2]'',
                        LogWarning ''Cannot get content from media ID: p2'']\<rparr>)"
  by (simp add: main_eval world_eval timeout_module_def home_world_def show_nat_digit eval_nat_numeral)

theorem media_loop_item_failures_witness:
  "get_media_content timeout_module ''p2'' = Inr None
   \<and> try_body timeout_module [''images''] ''al'' ''p1''
         (emit (LogInfo (''Getting content from: '' @ ''p1'' @ '' ['' @ show_nat 1 @ '' of '' @ show_nat 2 @ '']''))
            home_world)
       = (Some (Exn ReadTimeout ''timed out''),
          emit (LogInfo (''Getting content from: '' @ ''p1'' @ '' ['' @ show_nat 1 @ '' of '' @ show_nat 2 @ '']''))
            home_world)
   \<and> class_of (Exn ReadTimeout ''timed out'') \<in> {ReadTimeout, CancelledError, SSLWantReadError}
   \<and> media_loop timeout_module [''images''] ''al'' 2 1 [''p1'', ''p2''] home_world
       = media_loop timeout_module [''images''] ''al'' 2 (Suc 1) [''p2'']
           (emit (Sleep 1)
              (emit (LogWarning (''Exception: '' @ str_of (Exn ReadTimeout ''timed out'') @ '', in media ID: '' @ ''p1''))
                 (emit (LogInfo (''Getting content from: '' @ ''p1'' @ '' ['' @ show_nat 1 @ '' of '' @ show_nat 2 @ '']''))
                    home_world)))
   \<and> media_loop timeout_module [''images''] ''al'' 2 1 [''p1'', ''p2''] home_world
       = (None, \<lparr>disk = home_fs,
                 trace = [LogInfo ''Getting content from: p1 [1 of 2]'',
                          LogWarning ''Exception: timed out, in media ID: p1'',
                          Sleep 1,
                          LogInfo ''Getting content from: p2 [2 of 2]'',
                          LogWarning ''Cannot get content from media ID: p2'']\<rparr>)"
proof -
  let ?w0 = "emit (LogInfo (''Getting content from: '' @ ''p1'' @ '' ['' @ show_nat 1 @ '' of '' @ show_nat 2 @ '']''))
               home_world"
  have t: "try_body timeout_module [''images''] ''al'' ''p1'' ?w0
             = (Some (Exn ReadTimeout ''timed out''), ?w0)"
    by (simp add: try_body_def timeout_module_def)
  have c: "get_media_content timeout_module ''p2'' = Inr None"
    by (simp add: timeout_module_def)
  have cls: "class_of (Exn ReadTimeout ''timed out'') \<in> {ReadTimeout, CancelledError, SSLWantReadError}"
    by simp
  have imp: "try_body timeout_module [''images''] ''al'' ''p1'' ?w0 = (Some (Exn ReadTimeout ''timed out''), ?w0)
        \<and> class_of (Exn ReadTimeout ''timed out'') \<in> {ReadTimeout, CancelledError, SSLWantReadError}
      \<longrightarrow> media_loop timeout_module [''images''] ''al'' 2 1 (''p1'' # [''p2'']) home_world
          = media_loop timeout_module [''images''] ''al'' 2 (Suc 1) [''p2'']
              (emit (Sleep 1)
                 (emit (LogWarning (''Exception: '' @ str_of (Exn ReadTimeout ''timed out'') @ '', in media ID: '' @ ''p1''))
                    ?w0))"
    using media_loop_item_failures [of timeout_module "''p1''" "[''images'']" "''al''" 2 1 "[''p2'']"
            home_world "Exn ReadTimeout ''timed out''" ?w0]
    by blast
  have step: "media_loop timeout_module [''images''] ''al'' 2 1 [''p1'', ''p2''] home_world
          = media_loop timeout_module [''images''] ''al'' 2 (Suc 1) [''p2'']
              (emit (Sleep 1)
                 (emit (LogWarning (''Exception: '' @ str_of (Exn ReadTimeout ''timed out'') @ '', in media ID: '' @ ''p1''))
                    ?w0))"
    by (rule mp [OF imp]) (rule conjI [OF t cls])
  from c t cls step timeout_then_nothing_run show ?thesis
    by (intro conjI)
qed

text \<open>
  A reset connection while the first of two posts is resolved (\<^verbatim>\<open>httpx.ReadError\<close>) is
  caught by no clause: the run ends with that exception and the second post is never
  looked at.
\<close>

theorem connection_reset_aborts_run:
  "fst (main_block reset_module al_args home_world) = Some (Exn ReadError ''connection reset'')
   \<and> LogInfo ''Getting content from: p2 [2 of 2]'' \<notin> set (trace (snd (main_block reset_module al_args home_world)))
   \<and> LogInfo ''Getting content from: p1 [1 of 2]'' \<in> set (trace (snd (main_block reset_module al_args home_world)))"
  by (simp add: main_eval world_eval reset_module_def al_profile_def al_args_def home_world_def
        show_nat_digit eval_nat_numeral repr_str_def)

section \<open>Nothing is fetched and no file is written\<close>

lemma mkdir_fields:
  assumes "mkdir fs p = Inr fs'"
  shows "fs' = fs\<lparr>entries := entries fs @ [(p, Dir (dir_size fs))]\<rparr>"
  using assms by (auto simp: mkdir_def split: option.splits inode.splits if_splits)

lemma regular_files_mkdir: "mkdir fs p = Inr fs' \<Longrightarrow> regular_files fs' = regular_files fs"
  by (drule mkdir_fields) (simp add: regular_files_def)

lemma regular_files_makedirs_walk: "regular_files (snd (makedirs_walk fs st cs)) = regular_files fs"
proof (induction cs arbitrary: fs st)
  case Nil
  show ?case by (simp split: option.splits inode.splits)
next
  case (Cons c cs)
  show ?case
  proof (cases "mkdir fs (st @ [c])")
    case (Inl e)
    then show ?thesis
      by (simp add: Cons.IH split: option.splits inode.splits)
  next
    case (Inr fs')
    with regular_files_mkdir [OF Inr] show ?thesis
      by (simp add: Cons.IH split: option.splits inode.splits)
  qed
qed

lemma regular_files_ensure_folder: "regular_files (snd (ensure_folder fs s)) = regular_files fs"
  by (simp add: ensure_folder_def os_makedirs_def regular_files_makedirs_walk)

lemma no_file_no_fetch_refl: "no_file_no_fetch w w"
  by (simp add: no_file_no_fetch_def)

lemma no_file_no_fetch_trans:
  "no_file_no_fetch w w' \<Longrightarrow> no_file_no_fetch w' w'' \<Longrightarrow> no_file_no_fetch w w''"
  by (simp add: no_file_no_fetch_def)

lemma no_file_no_fetch_emit: "\<not> is_http_get e \<Longrightarrow> no_file_no_fetch w (emit e w)"
  by (simp add: no_file_no_fetch_def emit_def http_requests_def)

lemma no_file_no_fetch_emit_after:
  "\<not> is_http_get e \<Longrightarrow> no_file_no_fetch w w' \<Longrightarrow> no_file_no_fetch w (emit e w')"
  by (simp add: no_file_no_fetch_def emit_def http_requests_def)

lemma no_file_no_fetch_emit_before:
  "\<not> is_http_get e \<Longrightarrow> no_file_no_fetch (emit e w) w' \<Longrightarrow> no_file_no_fetch w w'"
  by (simp add: no_file_no_fetch_def emit_def http_requests_def)

text \<open>
  What \<^verbatim>\<open>_download_media\<close> does once the assertion has passed, in terms of the directory
  step.
\<close>

lemma download_media_some:
  "download_media (Some url) username media_type output w =
     (case ensure_folder (disk w) (output_folder_of (disk w) username media_type output) of
        (Some e, fs') \<Rightarrow>
          if class_of e = PermissionError
          then (None, emit (LogWarning (''Directory output: ''
                                        @ output_folder_of (disk w) username media_type output
                                        @ '' is not writeable!'')) (w\<lparr>disk := fs'\<rparr>))
          else (Some e, w\<lparr>disk := fs'\<rparr>)
      | (None, fs') \<Rightarrow>
          (None, emit (ConsolePrint
                  (if \<not> os_path_exists fs' (filename_of (disk w) url username media_type output)
                   then ''[green] '' @ filename_of (disk w) url username media_type output
                        @ '' [green] file exists!''
                   else ''[green] Skipping.. [blue]'' @ filename_of (disk w) url username media_type output
                        @ '' [green] file exists!''))
                 (w\<lparr>disk := fs'\<rparr>)))"
  by (simp add: download_media_def Let_def except_matches_def split: prod.splits option.splits)

lemma download_media_quiet: "no_file_no_fetch w (snd (download_media url_opt username media_type output w))"
proof (cases url_opt)
  case None
  then show ?thesis by (simp add: download_media_def no_file_no_fetch_refl)
next
  case (Some url)
  obtain x fs' where e: "ensure_folder (disk w) (output_folder_of (disk w) username media_type output) = (x, fs')"
    by (cases "ensure_folder (disk w) (output_folder_of (disk w) username media_type output)")
  from regular_files_ensure_folder [of "disk w" "output_folder_of (disk w) username media_type output"] e
  have rf: "regular_files fs' = regular_files (disk w)" by simp
  then have base: "no_file_no_fetch w (w\<lparr>disk := fs'\<rparr>)"
    by (simp add: no_file_no_fetch_def http_requests_def)
  show ?thesis
    by (cases x) (simp_all add: Some download_media_some e no_file_no_fetch_emit_after base)
qed

lemma and_then_quiet:
  assumes "no_file_no_fetch w (snd r)" and "\<And>w'. no_file_no_fetch w' (snd (f w'))"
  shows "no_file_no_fetch w (snd (and_then r f))"
proof (cases r)
  case (Pair x w1)
  show ?thesis
  proof (cases x)
    case None
    with Pair assms(1) assms(2) [of w1] show ?thesis
      by (auto simp: and_then_def intro: no_file_no_fetch_trans)
  next
    case (Some e)
    with Pair assms(1) show ?thesis by (simp add: and_then_def)
  qed
qed

lemma download_images_quiet: "no_file_no_fetch w (snd (download_images username n i imgs w))"
proof (induction imgs arbitrary: w i)
  case Nil
  show ?case by (simp add: no_file_no_fetch_refl)
next
  case (Cons img rest)
  have "no_file_no_fetch w
          (snd (download_media img username ''images'' ''images''
                 (emit (LogInfo (''Downloading images ('' @ show_nat i @ '' of '' @ show_nat n @ '')'')) w)))"
    by (rule no_file_no_fetch_emit_before [OF _ download_media_quiet]) simp
  then show ?case
    unfolding download_images.simps by (rule and_then_quiet) (rule Cons.IH)
qed

lemma download_thumbnail_quiet: "no_file_no_fetch w (snd (download_thumbnail selected username n i v w))"
proof (cases "''thumbnails'' \<in> set selected")
  case True
  have "no_file_no_fetch w
          (snd (download_media (video_thumbnail v) username ''thumbnails'' ''thumbnails''
                 (emit (LogInfo (''Downloading thumbnails ('' @ show_nat i @ '' of '' @ show_nat n @ '')'')) w)))"
    by (rule no_file_no_fetch_emit_before [OF _ download_media_quiet]) simp
  with True show ?thesis by (simp add: download_thumbnail_def)
next
  case False
  then show ?thesis by (simp add: download_thumbnail_def no_file_no_fetch_refl)
qed

lemma download_video_quiet: "no_file_no_fetch w (snd (download_video selected username n i v w))"
proof (cases "''videos'' \<in> set selected")
  case True
  have "no_file_no_fetch w
          (snd (download_media (video_url v) username ''videos'' ''videos''
                 (emit (LogInfo (''Downloading videos ('' @ show_nat i @ '' of '' @ show_nat n @ '')'')) w)))"
    by (rule no_file_no_fetch_emit_before [OF _ download_media_quiet]) simp
  with True show ?thesis by (simp add: download_video_def)
next
  case False
  then show ?thesis by (simp add: download_video_def no_file_no_fetch_refl)
qed

lemma download_videos_quiet: "no_file_no_fetch w (snd (download_videos selected username n i vs w))"
proof (induction vs arbitrary: w i)
  case Nil
  show ?case by (simp add: no_file_no_fetch_refl)
next
  case (Cons v rest)
  have "no_file_no_fetch w (snd (and_then (download_thumbnail selected username n i v w)
                                          (download_video selected username n i v)))"
    by (rule and_then_quiet) (rule download_thumbnail_quiet, rule download_video_quiet)
  then show ?case
    unfolding download_videos.simps by (rule and_then_quiet) (rule Cons.IH)
qed

lemma images_stage_quiet: "no_file_no_fetch w (snd (images_stage selected username m w))"
proof -
  have warn: "no_file_no_fetch w (emit (LogWarning msg) w)" for msg
    by (rule no_file_no_fetch_emit) simp
  have run: "no_file_no_fetch w (snd (download_images username k j images (emit (LogInfo msg) w)))"
    for images k j msg
    by (rule no_file_no_fetch_emit_before [OF _ download_images_quiet]) simp
  show ?thesis
    by (cases "media_images m") (simp_all add: images_stage_def warn run no_file_no_fetch_refl)
qed

lemma videos_stage_quiet: "no_file_no_fetch w (snd (videos_stage selected username m w))"
proof -
  have warn: "no_file_no_fetch w (emit (LogWarning msg) w)" for msg
    by (rule no_file_no_fetch_emit) simp
  have run: "no_file_no_fetch w (snd (download_videos selected username k j videos (emit (LogInfo msg) w)))"
    for videos k j msg
    by (rule no_file_no_fetch_emit_before [OF _ download_videos_quiet]) simp
  show ?thesis
    by (cases "media_videos m") (simp_all add: videos_stage_def warn run no_file_no_fetch_refl)
qed

lemma try_body_quiet: "no_file_no_fetch w (snd (try_body module selected username media w))"
proof (cases "get_media_content module media")
  case (Inl e)
  then show ?thesis by (simp add: try_body_def no_file_no_fetch_refl)
next
  case (Inr c_opt)
  show ?thesis
  proof (cases c_opt)
    case None
    with Inr show ?thesis by (simp add: try_body_def no_file_no_fetch_emit)
  next
    case (Some c)
    show ?thesis
    proof (cases "content_media c")
      case None
      with Inr Some show ?thesis by (simp add: try_body_def no_file_no_fetch_refl)
    next
      case m: (Some m)
      have s1: "no_file_no_fetch w (snd (images_stage selected username m
                  (show_table (content_fields c) ''information'' w)))"
        unfolding show_table_def
        by (rule no_file_no_fetch_emit_before [OF _ images_stage_quiet]) simp
      have s2: "no_file_no_fetch w (snd (and_then (images_stage selected username m
                  (show_table (content_fields c) ''information'' w)) (videos_stage selected username m)))"
        by (rule and_then_quiet [OF s1 videos_stage_quiet])
      have s3: "no_file_no_fetch w' (snd (None :: exn option, emit (Sleep 1) w'))" for w'
        by (simp add: no_file_no_fetch_emit)
      from and_then_quiet [OF s2, of "\<lambda>w'. (None, emit (Sleep 1) w')", OF s3] Inr Some m
      show ?thesis by (simp add: try_body_def)
    qed
  qed
qed

lemma handle_exception_quiet: "no_file_no_fetch w w' \<Longrightarrow> no_file_no_fetch w (handle_exception media e w')"
  by (simp add: handle_exception_def no_file_no_fetch_emit_after)

lemma media_loop_step_quiet:
  assumes next_ok: "\<And>w'. no_file_no_fetch w' (snd (media_loop module selected username n (Suc i) rest w'))"
  shows "no_file_no_fetch w
     (snd (case try_body module selected username media (emit (LogInfo msg) w) of
        (None, w') \<Rightarrow> media_loop module selected username n (Suc i) rest w'
      | (Some e, w') \<Rightarrow>
          (case handler_for e of
             Some FirstExcept \<Rightarrow>
               media_loop module selected username n (Suc i) rest (handle_exception media e w')
           | Some SecondExcept \<Rightarrow>
               media_loop module selected username n (Suc i) rest (handle_exception media e w')
           | None \<Rightarrow> (Some e, w'))))"
proof -
  define w0 where "w0 = emit (LogInfo msg) w"
  obtain x w1 where t: "try_body module selected username media w0 = (x, w1)"
    by (cases "try_body module selected username media w0")
  have "no_file_no_fetch w0 w1"
    using try_body_quiet [of w0 module selected username media] t by simp
  then have q1: "no_file_no_fetch w w1"
    unfolding w0_def by (rule no_file_no_fetch_emit_before [rotated]) simp
  have go: "no_file_no_fetch w (snd (media_loop module selected username n (Suc i) rest w'))"
    if "no_file_no_fetch w w'" for w'
    using that next_ok [of w'] by (rule no_file_no_fetch_trans)
  have hq: "no_file_no_fetch w (handle_exception media e w1)" for e
    using q1 by (rule handle_exception_quiet)
  show ?thesis
    unfolding w0_def [symmetric] t
  proof (cases x)
    case None
    with q1 go show "no_file_no_fetch w
     (snd (case (x, w1) of
        (None, w') \<Rightarrow> media_loop module selected username n (Suc i) rest w'
      | (Some e, w') \<Rightarrow>
          (case handler_for e of
             Some FirstExcept \<Rightarrow>
               media_loop module selected username n (Suc i) rest (handle_exception media e w')
           | Some SecondExcept \<Rightarrow>
               media_loop module selected username n (Suc i) rest (handle_exception media e w')
           | None \<Rightarrow> (Some e, w'))))"
      by simp
  next
    case (Some e)
    with q1 go hq show "no_file_no_fetch w
     (snd (case (x, w1) of
        (None, w') \<Rightarrow> media_loop module selected username n (Suc i) rest w'
      | (Some e, w') \<Rightarrow>
          (case handler_for e of
             Some FirstExcept \<Rightarrow>
               media_loop module selected username n (Suc i) rest (handle_exception media e w')
           | Some SecondExcept \<Rightarrow>
               media_loop module selected username n (Suc i) rest (handle_exception media e w')
           | None \<Rightarrow> (Some e, w'))))"
      by (cases "handler_for e") (auto split: handler.splits)
  qed
qed

lemma media_loop_quiet: "no_file_no_fetch w (snd (media_loop module selected username n i ids w))"
proof (induction ids arbitrary: w i)
  case Nil
  show ?case by (simp add: no_file_no_fetch_refl)
next
  case (Cons media rest)
  show ?case
    unfolding media_loop.simps by (rule media_loop_step_quiet) (rule Cons.IH)
qed

lemma summary_quiet: "no_file_no_fetch w (snd (calculate_result_and_show_table username w))"
  by (cases "calculate_total_size (disk w) username")
     (simp_all add: calculate_result_and_show_table_def show_table_def no_file_no_fetch_refl
        no_file_no_fetch_emit)

lemma main_tail_quiet:
  assumes "no_file_no_fetch w w2"
  shows "no_file_no_fetch w (snd (and_then (media_loop module selected username k j ids w2)
                                          (calculate_result_and_show_table username)))"
proof -
  from assms media_loop_quiet
  have "no_file_no_fetch w (snd (media_loop module selected username k j ids w2))"
    by (rule no_file_no_fetch_trans)
  then show ?thesis
    by (rule and_then_quiet) (rule summary_quiet)
qed

lemmas quiet_simps = no_file_no_fetch_refl no_file_no_fetch_emit no_file_no_fetch_emit_after
  main_tail_quiet show_table_def

lemma main_async_quiet: "no_file_no_fetch w (snd (main_async module kwargs w))"
proof (cases "clear_username module (arg_username kwargs)")
  case (Inl e)
  then show ?thesis by (simp add: main_async_def quiet_simps)
next
  case (Inr username)
  show ?thesis
  proof (cases "get_profile module username")
    case (Inl e)
    with Inr show ?thesis by (simp add: main_async_def quiet_simps)
  next
    case p: (Inr prof_opt)
    show ?thesis
    proof (cases prof_opt)
      case None
      with Inr p show ?thesis
        by (simp add: main_async_def quiet_simps)
    next
      case (Some prof)
      show ?thesis
      proof (cases "get_media_id module (profile_page prof)")
        case (Inl e)
        with Inr p Some show ?thesis
          by (simp add: main_async_def quiet_simps)
      next
        case ids: (Inr media_id)
        show ?thesis
        proof (cases "media_id = []")
          case True
          with Inr p Some ids show ?thesis
            by (cases "profile_get_username prof") (simp_all add: main_async_def quiet_simps)
        next
          case False
          with Inr p Some ids show ?thesis
            by (simp add: main_async_def quiet_simps)
        qed
      qed
    qed
  qed
qed

lemma main_block_quiet: "no_file_no_fetch w (snd (main_block module a w))"
proof (cases "gate a")
  case False
  then show ?thesis by (simp add: main_block_def quiet_simps)
next
  case True
  obtain x w1 where r: "main_async module a w = (x, w1)"
    by (cases "main_async module a w")
  with main_async_quiet [of w module a] have "no_file_no_fetch w w1"
    by simp
  with True r show ?thesis
    by (cases x) (simp_all add: main_block_def quiet_simps)
qed

text \<open>
  \<^bold>\<open>C2\<close>.  A call of \<^verbatim>\<open>_download_media\<close> leaves the regular files of the disk and the
  HTTP requests made so far as they were, whatever its arguments.  When the directory
  step does not raise, the call returns normally and all it adds to the trace is one
  printed line, the same in kind in both branches of the existence check.  Hence a run
  of \<^verbatim>\<open>_main\<close>, and of the program, writes no file and requests no media.
\<close>

theorem download_media_no_fetch_no_file:
  "no_file_no_fetch w (snd (download_media url_opt username media_type output w))
   \<and> (fst (ensure_folder (disk w) (output_folder_of (disk w) username media_type output)) = None
      \<longrightarrow> download_media (Some url) username media_type output w
          = (None,
             emit (ConsolePrint
                    (if \<not> os_path_exists
                            (snd (ensure_folder (disk w) (output_folder_of (disk w) username media_type output)))
                            (filename_of (disk w) url username media_type output)
                     then ''[green] '' @ filename_of (disk w) url username media_type output
                          @ '' [green] file exists!''
                     else ''[green] Skipping.. [blue]'' @ filename_of (disk w) url username media_type output
                          @ '' [green] file exists!''))
               (w\<lparr>disk := snd (ensure_folder (disk w) (output_folder_of (disk w) username media_type output))\<rparr>)))
   \<and> no_file_no_fetch w (snd (main_async module kwargs w))
   \<and> no_file_no_fetch w (snd (main_block module kwargs w))"
proof -
  have branch: "download_media (Some url) username media_type output w
          = (None,
             emit (ConsolePrint
                    (if \<not> os_path_exists
                            (snd (ensure_folder (disk w) (output_folder_of (disk w) username media_type output)))
                            (filename_of (disk w) url username media_type output)
                     then ''[green] '' @ filename_of (disk w) url username media_type output
                          @ '' [green] file exists!''
                     else ''[green] Skipping.. [blue]'' @ filename_of (disk w) url username media_type output
                          @ '' [green] file exists!''))
               (w\<lparr>disk := snd (ensure_folder (disk w) (output_folder_of (disk w) username media_type output))\<rparr>))"
    if "fst (ensure_folder (disk w) (output_folder_of (disk w) username media_type output)) = None"
    using that
    by (cases "ensure_folder (disk w) (output_folder_of (disk w) username media_type output)")
       (simp add: download_media_some)
  from branch download_media_quiet main_async_quiet main_block_quiet show ?thesis
    by blast
qed

lemma home_ensure_folder:
  "ensure_folder home_fs (output_folder_of home_fs ''al'' ''images'' ''images'') = (None, after_run_fs)"
  by (simp add: home_fs_def after_run_fs_def path_eval)

theorem download_media_no_fetch_no_file_witness:
  "fst (ensure_folder (disk home_world) (output_folder_of (disk home_world) ''al'' ''images'' ''images'')) = None
   \<and> download_media (Some image_url) ''al'' ''images'' ''images'' home_world
       = (None, \<lparr>disk = after_run_fs,
                 trace = [ConsolePrint
                   ''[green] /w/images/al/images/037052ef0569aa3af63d36b629044f97 [green] file exists!'']\<rparr>)
   \<and> regular_files (disk (snd (main_block al_module al_args home_world))) = []
   \<and> http_requests (snd (main_block al_module al_args home_world)) = []"
proof -
  have d: "disk home_world = home_fs" and t: "trace home_world = []"
    by (simp_all add: home_world_def)
  have f: "filename_of home_fs image_url ''al'' ''images'' ''images''
             = ''/w/images/al/images/037052ef0569aa3af63d36b629044f97''"
    by (simp add: filename_of_def output_folder_of_def home_fs_def os_path_join_def os_path_realpath_def
          resolve_def render_def md5_image_url)
  have e: "\<not> os_path_exists after_run_fs ''/w/images/al/images/037052ef0569aa3af63d36b629044f97''"
    by (simp add: os_path_exists_def start_of_def is_dir_at_def inode_at_def after_run_fs_def)
  have r0: "regular_files home_fs = []" "http_requests \<lparr>disk = home_fs, trace = []\<rparr> = []"
    by (simp_all add: home_fs_def regular_files_def http_requests_def)
  from download_media_no_fetch_no_file [of home_world "Some image_url" "''al''" "''images''" "''images''"
          image_url al_module al_args]
  show ?thesis
    by (simp add: d t f e r0 home_ensure_folder no_file_no_fetch_def emit_def home_world_def)
qed

section \<open>Running the pipeline twice\<close>

subsection \<open>Growing disks\<close>
















subsection \<open>Walking along plain names\<close>










subsection \<open>The destination directory\<close>















subsection \<open>Steps that settle\<close>










subsection \<open>\<^verbatim>\<open>_download_media\<close> settles\<close>



subsection \<open>The loops of \<^verbatim>\<open>_main\<close> settle\<close>













subsection \<open>The second run\<close>










lemma dotted_first_run:
  "fst (main_block dotted_module dotted_args \<lparr>disk = shadowed_fs, trace = []\<rparr>)
     = Some (Exn FileExistsError ''/w/images/images'')
   \<and> disk (snd (main_block dotted_module dotted_args \<lparr>disk = shadowed_fs, trace = []\<rparr>))
       = shadowed_fs\<lparr>entries := entries shadowed_fs @ [([''w'', ''images'', ''a''], Dir 4096)]\<rparr>"
  by (simp add: main_eval size_eval path_eval world_eval dotted_module_def al_profile_def image_and_video_def
      dotted_args_def shadowed_fs_def show_nat_digit
      download_media_def md5_image_url Let_def repr_str_def)

lemma dotted_second_run:
  assumes "disk w = shadowed_fs\<lparr>entries := entries shadowed_fs @ [([''w'', ''images'', ''a''], Dir 4096)]\<rparr>"
  shows "fst (main_block dotted_module dotted_args w) = None
   \<and> map fst (entries (disk (snd (main_block dotted_module dotted_args w))))
       = [[''w''], [''w'', ''images''], [''w'', ''images'', ''images''], [''w'', ''images'', ''a''],
          [''w'', ''videos''], [''w'', ''videos'', ''a''], [''w'', ''videos'', ''videos'']]"
  by (simp add: assms main_eval size_eval path_eval world_eval dotted_module_def al_profile_def image_and_video_def
      dotted_args_def shadowed_fs_def show_nat_digit
      download_media_def md5_image_url Let_def repr_str_def)

text \<open>
  The plain user name is needed.  With the user name \<^verbatim>\<open>a/..\<close> and a file at
  \<^verbatim>\<open>/w/images/images\<close>, the first run creates \<^verbatim>\<open>/w/images/a\<close> and then fails on the
  file; now that \<^verbatim>\<open>/w/images/a\<close> is there, the second run finds that
  \<^verbatim>\<open>/w/images/a/../images\<close> exists, goes on and creates the directories for the video.
\<close>

lemma dotted_name_second_run_differs:
  "tidy shadowed_fs
   \<and> fst (main_block dotted_module dotted_args \<lparr>disk = shadowed_fs, trace = []\<rparr>)
       = Some (Exn FileExistsError ''/w/images/images'')
   \<and> map fst (entries (disk (snd (main_block dotted_module dotted_args \<lparr>disk = shadowed_fs, trace = []\<rparr>))))
       = [[''w''], [''w'', ''images''], [''w'', ''images'', ''images''], [''w'', ''images'', ''a'']]
   \<and> fst (main_block dotted_module dotted_args
             (snd (main_block dotted_module dotted_args \<lparr>disk = shadowed_fs, trace = []\<rparr>))) = None
   \<and> map fst (entries (disk (snd (main_block dotted_module dotted_args
             (snd (main_block dotted_module dotted_args \<lparr>disk = shadowed_fs, trace = []\<rparr>))))))
       = [[''w''], [''w'', ''images''], [''w'', ''images'', ''images''], [''w'', ''images'', ''a''],
          [''w'', ''videos''], [''w'', ''videos'', ''a''], [''w'', ''videos'', ''videos'']]"
proof -
  have t: "tidy shadowed_fs"
    by (simp add: tidy_def shadowed_fs_def plain_name_def is_dir_at_def inode_at_def)
  note first = dotted_first_run
  note second = dotted_second_run [OF conjunct2 [OF first]]
  have e: "map fst (entries (shadowed_fs\<lparr>entries := entries shadowed_fs @ [([''w'', ''images'', ''a''], Dir 4096)]\<rparr>))
       = [[''w''], [''w'', ''images''], [''w'', ''images'', ''images''], [''w'', ''images'', ''a'']]"
    by (simp add: shadowed_fs_def)
  from t first second e show ?thesis
    by (simp only: simp_thms)
qed


end
